theory Spec2Isabelle
  imports Main "HOL-Library.AList"
begin

section \<open>JavaScript values\<close>

text \<open>
  The normalizer (\<^verbatim>\<open>src/unnamed/part_001\<close>) works on parsed JSON and on the output of
  the serializer, so a value is a JSON tree plus \<^verbatim>\<open>undefined\<close>. An object is an
  association list in insertion order: a read takes the first entry of a key, a write
  replaces that entry in place or appends a new one (\<^const>\<open>AList.update\<close>).

  Limits of the embedding, none of which the source relies on:
  \<^item> a number is an integer that \<^verbatim>\<open>String\<close> prints in plain decimal digits, that is,
    of magnitude below \<^verbatim>\<open>1e21\<close> (from there on \<^verbatim>\<open>String\<close> uses exponent notation);
    there are no fractions and no \<^verbatim>\<open>NaN\<close>;
  \<^item> the tree has no sharing: an object reached by two paths is two values;
  \<^item> a property read never sees an inherited property or a built-in own property of a
    string or an array (\<^verbatim>\<open>length\<close>, indices, methods): a type or relationship called
    \<^verbatim>\<open>length\<close> or \<^verbatim>\<open>constructor\<close> is outside the embedding. The fixed names the
    source reads (\<^verbatim>\<open>id\<close>, \<^verbatim>\<open>slug\<close>, \<^verbatim>\<open>username\<close>, \<^verbatim>\<open>name\<close>,
    \<^verbatim>\<open>data\<close>, \<^verbatim>\<open>type\<close>, \<^verbatim>\<open>included\<close>, \<^verbatim>\<open>relationships\<close>) are none of them.
    The inherited method the source does call, \<^verbatim>\<open>toString\<close> through \<^verbatim>\<open>String\<close>, is
    part of the conversion to a string below.
\<close>

datatype jsval =
    JUndef
  | JNull
  | JBool bool
  | JNum int
  | JStr string
  | JArr "jsval list"
  | JObj "(string \<times> jsval) list"

type_synonym obj = "(string \<times> jsval) list"

text \<open>
  \<^verbatim>\<open>TypeError\<close> is the exception the engine raises on a property read of
  \<^verbatim>\<open>null\<close>/\<^verbatim>\<open>undefined\<close>, on a call of something that is not a function, and (the file
  is an ES module, hence strict) on a property write to a primitive. \<^verbatim>\<open>Unmodelled\<close>
  marks the one thing the source can do that the value type cannot hold: a named
  property written onto an array.
\<close>

datatype error = TypeError | Unmodelled

definition thenE :: "error + 'a \<Rightarrow> ('a \<Rightarrow> error + 'b) \<Rightarrow> error + 'b" where
  "thenE m f = (case m of Inl e \<Rightarrow> Inl e | Inr x \<Rightarrow> f x)"

text \<open>\<^verbatim>\<open>xs.map(f)\<close> where \<^verbatim>\<open>f\<close> may throw: the first exception ends the loop.\<close>

fun mapE :: "('a \<Rightarrow> error + 'b) \<Rightarrow> 'a list \<Rightarrow> error + 'b list" where
  "mapE f [] = Inr []"
| "mapE f (x # xs) =
     (case f x of
        Inl e \<Rightarrow> Inl e
      | Inr y \<Rightarrow> (case mapE f xs of Inl e \<Rightarrow> Inl e | Inr ys \<Rightarrow> Inr (y # ys)))"

text \<open>\<^verbatim>\<open>xs.forEach(x => step(state, x))\<close> on a state that each step updates.\<close>

fun foldE :: "('s \<Rightarrow> 'a \<Rightarrow> error + 's) \<Rightarrow> 's \<Rightarrow> 'a list \<Rightarrow> error + 's" where
  "foldE f s [] = Inr s"
| "foldE f s (x # xs) = (case f s x of Inl e \<Rightarrow> Inl e | Inr s' \<Rightarrow> foldE f s' xs)"

text \<open>Truthiness, as \<^verbatim>\<open>if (v)\<close>, \<^verbatim>\<open>!v\<close>, \<^verbatim>\<open>a || b\<close> and \<^verbatim>\<open>a && b\<close> test it.\<close>

fun truthy :: "jsval \<Rightarrow> bool" where
  "truthy JUndef = False"
| "truthy JNull = False"
| "truthy (JBool b) = b"
| "truthy (JNum n) = (n \<noteq> 0)"
| "truthy (JStr s) = (s \<noteq> [])"
| "truthy (JArr xs) = True"
| "truthy (JObj kvs) = True"

text \<open>\<^verbatim>\<open>a || b\<close> on two values already read.\<close>

definition or_js :: "jsval \<Rightarrow> jsval \<Rightarrow> jsval" where
  "or_js a b = (if truthy a then a else b)"

text \<open>\<^verbatim>\<open>o[k]\<close> on an object: the own property, \<^verbatim>\<open>undefined\<close> when absent.\<close>

definition lookup :: "obj \<Rightarrow> string \<Rightarrow> jsval" where
  "lookup kvs k = (case map_of kvs k of None \<Rightarrow> JUndef | Some v \<Rightarrow> v)"

text \<open>\<^verbatim>\<open>v[k]\<close> and \<^verbatim>\<open>v.k\<close> on any value.\<close>

fun get :: "jsval \<Rightarrow> string \<Rightarrow> error + jsval" where
  "get JUndef k = Inl TypeError"
| "get JNull k = Inl TypeError"
| "get (JObj kvs) k = Inr (lookup kvs k)"
| "get v k = Inr JUndef"

text \<open>\<^verbatim>\<open>v.k = x\<close> in strict mode, returning the value \<^verbatim>\<open>v\<close> now denotes.\<close>

fun put :: "jsval \<Rightarrow> string \<Rightarrow> jsval \<Rightarrow> error + jsval" where
  "put (JObj kvs) k x = Inr (JObj (AList.update k x kvs))"
| "put (JArr xs) k x = Inl Unmodelled"
| "put v k x = Inl TypeError"

text \<open>Lines 5-8.\<close>

fun isObject :: "jsval \<Rightarrow> bool" where
  "isObject (JObj kvs) = True"
| "isObject v = False"

fun isPrimitive :: "jsval \<Rightarrow> bool" where
  "isPrimitive (JStr s) = True"
| "isPrimitive (JNum n) = True"
| "isPrimitive v = False"

subsection \<open>\<^verbatim>\<open>String(v)\<close> and template literals\<close>

fun string_of_nat :: "nat \<Rightarrow> string" where
  "string_of_nat n =
     (if n < 10 then [''0123456789'' ! n]
      else string_of_nat (n div 10) @ [''0123456789'' ! (n mod 10)])"

declare string_of_nat.simps [simp del]

definition string_of_int :: "int \<Rightarrow> string" where
  "string_of_int i = (if i < 0 then ''-'' @ string_of_nat (nat (- i)) else string_of_nat (nat i))"

fun join_comma :: "string list \<Rightarrow> string" where
  "join_comma [] = []"
| "join_comma [s] = s"
| "join_comma (s # t # ss) = s @ '','' @ join_comma (t # ss)"

text \<open>
  \<^verbatim>\<open>String(v)\<close>, which is also what \<^verbatim>\<open>${v}\<close> and a computed property key apply.

  The conversion of an object calls its \<^verbatim>\<open>toString\<close>. An object of the tree inherits the
  one that answers \<^verbatim>\<open>[object Object]\<close>, unless it has an own property \<^verbatim>\<open>toString\<close>:
  that property is a value of the tree, so it is not callable, the inherited
  \<^verbatim>\<open>valueOf\<close> answers the object itself, and the conversion throws a TypeError. An array
  joins the conversions of its elements with commas, \<^verbatim>\<open>null\<close> and \<^verbatim>\<open>undefined\<close>
  elements as the empty string, so it throws when the conversion of an element does.
\<close>

fun String_throws :: "jsval \<Rightarrow> bool" where
  "String_throws (JObj kvs) = (''toString'' \<in> set (map fst kvs))"
| "String_throws (JArr xs) = list_ex String_throws xs"
| "String_throws v = False"

text \<open>The string the conversion returns when it does not throw.\<close>

fun string_text :: "jsval \<Rightarrow> string" where
  "string_text JUndef = ''undefined''"
| "string_text JNull = ''null''"
| "string_text (JBool b) = (if b then ''true'' else ''false'')"
| "string_text (JNum n) = string_of_int n"
| "string_text (JStr s) = s"
| "string_text (JArr xs) =
     join_comma (map (\<lambda>x. if x = JUndef \<or> x = JNull then [] else string_text x) xs)"
| "string_text (JObj kvs) = ''[object Object]''"

definition String_js :: "jsval \<Rightarrow> error + string" where
  "String_js v = (if String_throws v then Inl TypeError else Inr (string_text v))"

text \<open>\<^verbatim>\<open>{...v}\<close>: the own enumerable properties of \<^verbatim>\<open>v\<close>.\<close>

fun spread :: "jsval \<Rightarrow> obj" where
  "spread (JObj kvs) = kvs"
| "spread (JArr xs) = zip (map string_of_nat [0..<length xs]) xs"
| "spread (JStr s) = zip (map string_of_nat [0..<length s]) (map (\<lambda>c. JStr [c]) s)"
| "spread v = []"

section \<open>Identifier Resolver\<close>

text \<open>
  Lines 40-43, \<^verbatim>\<open>extractResourceId\<close>. The four reads are of one value, so they throw
  together or not at all; \<^verbatim>\<open>||\<close> associates to the left.
\<close>

definition extractResourceId :: "jsval \<Rightarrow> error + jsval" where
  "extractResourceId resource =
     (if isPrimitive resource then thenE (String_js resource) (\<lambda>s. Inr (JStr s))
      else thenE (get resource ''id'') (\<lambda>a.
           thenE (get resource ''slug'') (\<lambda>b.
           thenE (get resource ''username'') (\<lambda>c.
           thenE (get resource ''name'') (\<lambda>d.
             Inr (or_js (or_js (or_js a b) c) d))))))"

section \<open>Resource-Shape Inspector\<close>

text \<open>
  \<^verbatim>\<open>pluralize\<close> comes from \<^verbatim>\<open>@warp-drive/utilities/string\<close>, outside the repository:
  every function takes it as the parameter \<open>pl\<close>. The payload (\<^verbatim>\<open>data\<close>,
  \<^verbatim>\<open>document\<close>, \<^verbatim>\<open>item\<close>) is an object.
\<close>

text \<open>
  Lines 17-21, \<^verbatim>\<open>detectResourceType\<close>: \<^verbatim>\<open>find\<close> gives the first type whose singular
  or plural key holds a truthy value; \<^verbatim>\<open>|| 'unknown'\<close> also replaces an empty type name.
\<close>

definition detectResourceType :: "(string \<Rightarrow> string) \<Rightarrow> string list \<Rightarrow> obj \<Rightarrow> string" where
  "detectResourceType pl knownTypes data =
     (case find (\<lambda>t. truthy (or_js (lookup data t) (lookup data (pl t)))) knownTypes of
        None \<Rightarrow> ''unknown''
      | Some t \<Rightarrow> (if t = [] then ''unknown'' else t))"

text \<open>Lines 30-32, \<^verbatim>\<open>isCollectionResponse\<close>.\<close>

definition isCollectionResponse :: "(string \<Rightarrow> string) \<Rightarrow> string list \<Rightarrow> obj \<Rightarrow> bool" where
  "isCollectionResponse pl knownTypes data =
     list_ex (\<lambda>t. truthy (lookup data (pl t))) knownTypes"

text \<open>
  A field declaration of the schema, and the schema service as the source uses it:
  \<^verbatim>\<open>schema._schemas.keys()\<close> and \<^verbatim>\<open>Array.from(schema.fields({ type }).values())\<close>, where
  \<open>None\<close> stands for a lookup that throws.
\<close>

record schema_field =
  kind :: string
  name :: string

record schema_service =
  schemas_keys :: "string list"
  fields_of :: "string \<Rightarrow> schema_field list option"

text \<open>
  Lines 63-80: the property name that will hold a primitive. \<^verbatim>\<open>fields.find\<close> walks the
  declared fields in their order, with the predicate of lines 70-72.
\<close>

definition holds_primitive :: "schema_field \<Rightarrow> bool" where
  "holds_primitive field \<longleftrightarrow>
     kind field = ''field'' \<and> name field \<in> set [''name'', ''title'', ''label'', ''text'', ''value'']"

definition propertyName_of :: "schema_service option \<Rightarrow> string \<Rightarrow> string" where
  "propertyName_of schema type =
     (case schema of
        None \<Rightarrow> ''value''
      | Some s \<Rightarrow>
          (case fields_of s type of
             None \<Rightarrow> ''value''
           | Some fs \<Rightarrow>
               (case find holds_primitive fs of
                  None \<Rightarrow> ''value''
                | Some nameField \<Rightarrow> name nameField)))"

text \<open>Lines 82-85: the object literal \<^verbatim>\<open>{ id: String(item), [propertyName]: item }\<close>.\<close>

definition coerce_item :: "string \<Rightarrow> jsval \<Rightarrow> error + jsval" where
  "coerce_item propertyName item =
     thenE (String_js item) (\<lambda>s.
       Inr (JObj (AList.update propertyName item [(''id'', JStr s)])))"

text \<open>
  Lines 54-89, \<^verbatim>\<open>normalizeResourceData\<close>; the payload it returns is the mutated one.
  The \<^verbatim>\<open>try\<close> of lines 66-79 covers the schema lookup only: a \<^verbatim>\<open>String(item)\<close> that
  throws on line 83 ends the call, before \<^verbatim>\<open>data[pluralKey]\<close> is assigned.
\<close>

definition normalizeResourceData ::
  "(string \<Rightarrow> string) \<Rightarrow> obj \<Rightarrow> string \<Rightarrow> schema_service option \<Rightarrow> error + obj" where
  "normalizeResourceData pl data type schema =
     (let pluralKey = pl type in
      case lookup data pluralKey of
        JArr resourceArray \<Rightarrow>
          (if list_ex isPrimitive resourceArray
           then thenE (mapE (coerce_item (propertyName_of schema type)) resourceArray)
                  (\<lambda>items'. Inr (AList.update pluralKey (JArr items') data))
           else Inr data)
      | v \<Rightarrow> Inr data)"

section \<open>Schema Query Adapter\<close>

text \<open>Lines 98-106, \<^verbatim>\<open>getSchemaRelationships\<close>: whatever the \<^verbatim>\<open>try\<close> block throws gives \<^verbatim>\<open>[]\<close>.\<close>

definition getSchemaRelationships :: "schema_service option \<Rightarrow> string \<Rightarrow> string list" where
  "getSchemaRelationships schema type =
     (case schema of
        None \<Rightarrow> []
      | Some s \<Rightarrow>
          (case fields_of s type of
             None \<Rightarrow> []
           | Some fs \<Rightarrow>
               map name (filter (\<lambda>field. kind field \<in> set [''belongsTo'', ''hasMany'']) fs)))"

section \<open>Relationship id back-fill\<close>

text \<open>Lines 120-124: one item of a relationship.\<close>

definition ensureItemId :: "jsval \<Rightarrow> error + jsval" where
  "ensureItemId item =
     (case item of
        JObj kvs \<Rightarrow>
          (if \<not> truthy (lookup kvs ''id'')
           then thenE (extractResourceId item) (\<lambda>i. put item ''id'' i)
           else Inr item)
      | v \<Rightarrow> Inr item)"

text \<open>Lines 119-124: the relationship value once its items have been given ids.\<close>

definition backfill_value :: "jsval \<Rightarrow> error + jsval" where
  "backfill_value relData =
     (case relData of
        JArr items \<Rightarrow> thenE (mapE ensureItemId items) (\<lambda>items'. Inr (JArr items'))
      | v \<Rightarrow> ensureItemId relData)"

text \<open>
  Lines 115-125: one relationship name. The items are changed in place, so the resource
  holds them afterwards; only an object can hold a truthy \<^verbatim>\<open>relData\<close>.
\<close>

definition ensureRelationship :: "jsval \<Rightarrow> string \<Rightarrow> error + jsval" where
  "ensureRelationship resource relName =
     thenE (get resource relName) (\<lambda>relData.
       if \<not> truthy relData then Inr resource
       else thenE (backfill_value relData) (\<lambda>relData'. put resource relName relData'))"

text \<open>Lines 114-126, \<^verbatim>\<open>ensureRelationshipIds\<close>.\<close>

definition ensureRelationshipIds :: "jsval \<Rightarrow> string list \<Rightarrow> error + jsval" where
  "ensureRelationshipIds resource relationships = foldE ensureRelationship resource relationships"

text \<open>Line 119 (and lines 171-173): the items of a relationship value.\<close>

definition relationship_items :: "jsval \<Rightarrow> jsval list" where
  "relationship_items relData = (case relData of JArr items \<Rightarrow> items | v \<Rightarrow> [relData])"

section \<open>Relationship Linker and Type Rewriter\<close>

text \<open>\<^verbatim>\<open>Object.entries(v)\<close> of a truthy value, and the value rebuilt from changed entries.\<close>

fun entries :: "jsval \<Rightarrow> (string \<times> jsval) list" where
  "entries (JObj kvs) = kvs"
| "entries (JArr xs) = zip (map string_of_nat [0..<length xs]) xs"
| "entries (JStr s) = zip (map string_of_nat [0..<length s]) (map (\<lambda>c. JStr [c]) s)"
| "entries v = []"

fun with_entries :: "jsval \<Rightarrow> (string \<times> jsval) list \<Rightarrow> jsval" where
  "with_entries (JObj kvs) es = JObj es"
| "with_entries (JArr xs) es = JArr (map snd es)"
| "with_entries v es = v"

text \<open>Lines 139-142; each template literal converts \<^verbatim>\<open>resourceId\<close> to a string.\<close>

definition links_of :: "string \<Rightarrow> jsval \<Rightarrow> string \<Rightarrow> error + jsval" where
  "links_of baseUrl resourceId relName =
     thenE (String_js resourceId) (\<lambda>rid.
       Inr (JObj [(''related'', JStr (baseUrl @ ''/'' @ rid @ ''/'' @ relName)),
                  (''self'', JStr (baseUrl @ ''/'' @ rid @ ''/relationships/'' @ relName))]))"

text \<open>
  Lines 135-144, \<^verbatim>\<open>addJsonApiLinks\<close>, returning the relationships as mutated. An entry
  that is a primitive cannot take the \<^verbatim>\<open>links\<close> property: \<^const>\<open>put\<close> throws.
\<close>

definition addJsonApiLinks :: "jsval \<Rightarrow> string \<Rightarrow> jsval \<Rightarrow> error + jsval" where
  "addJsonApiLinks relationships baseUrl resourceId =
     (if \<not> truthy relationships then Inr relationships
      else thenE (mapE (\<lambda>(relName, relationship).
                     thenE (links_of baseUrl resourceId relName) (\<lambda>links.
                     thenE (put relationship ''links'' links)
                       (\<lambda>r. Inr (relName, r))))
                   (entries relationships))
             (\<lambda>es. Inr (with_entries relationships es)))"

text \<open>
  The relationship type map is the caller's object from names to type names. Line 162:
  \<^verbatim>\<open>relationshipTypeMap[k] || fallback\<close>; an empty type name is falsy.
\<close>

definition mapped_or :: "(string \<Rightarrow> string option) \<Rightarrow> string \<Rightarrow> jsval \<Rightarrow> jsval" where
  "mapped_or relationshipTypeMap k fallback =
     (case relationshipTypeMap k of
        None \<Rightarrow> fallback
      | Some t \<Rightarrow> (if t = [] then fallback else JStr t))"

text \<open>
  Lines 160-163: one included item, copied with its type rewritten. The computed key of
  \<^verbatim>\<open>relationshipTypeMap[item.type]\<close> is \<^verbatim>\<open>item.type\<close> converted to a string.
\<close>

definition mapIncluded :: "(string \<Rightarrow> string option) \<Rightarrow> jsval \<Rightarrow> error + jsval" where
  "mapIncluded relationshipTypeMap item =
     thenE (get item ''type'') (\<lambda>t.
     thenE (String_js t) (\<lambda>k.
       Inr (JObj (AList.update ''type'' (mapped_or relationshipTypeMap k t) (spread item)))))"

text \<open>Lines 168-176: one entry of the relationships object, returned as mutated.\<close>

definition mapRelationship ::
  "(string \<Rightarrow> string option) \<Rightarrow> string \<Rightarrow> jsval \<Rightarrow> error + jsval" where
  "mapRelationship relationshipTypeMap relName relationship =
     (case relationshipTypeMap relName of
        None \<Rightarrow> Inr relationship
      | Some targetType \<Rightarrow>
          (if targetType = [] then Inr relationship
           else thenE (get relationship ''data'') (\<lambda>d.
                  if \<not> truthy d then Inr relationship
                  else thenE (case d of
                                JArr dataItems \<Rightarrow>
                                  thenE (mapE (\<lambda>item. put item ''type'' (JStr targetType)) dataItems)
                                    (\<lambda>items'. Inr (JArr items'))
                              | v \<Rightarrow> put d ''type'' (JStr targetType))
                         (\<lambda>d'. put relationship ''data'' d'))))"

text \<open>
  Lines 153-180, \<^verbatim>\<open>mapTypes\<close>: the value returned. For an object that is the object
  itself, mutated; for an array it is a new array, or \<^verbatim>\<open>undefined\<close> when empty.
\<close>

definition mapTypes :: "jsval \<Rightarrow> (string \<Rightarrow> string option) \<Rightarrow> error + jsval" where
  "mapTypes data relationshipTypeMap =
     (if \<not> truthy data then Inr data
      else case data of
        JArr items \<Rightarrow>
          (if items = [] then Inr JUndef
           else thenE (mapE (mapIncluded relationshipTypeMap) items) (\<lambda>items'. Inr (JArr items')))
      | JObj kvs \<Rightarrow>
          thenE (mapE (\<lambda>(relName, relationship).
                   thenE (mapRelationship relationshipTypeMap relName relationship)
                     (\<lambda>r. Inr (relName, r))) kvs)
            (\<lambda>kvs'. Inr (JObj kvs'))
      | v \<Rightarrow> Inr data)"

section \<open>Canonical Serializer\<close>

text \<open>
  \<^verbatim>\<open>serialize\<close> comes from the package \<^verbatim>\<open>jsonapi-fractal\<close>, outside the repository: it
  is the parameter \<open>ser\<close>, called with the resource, the type and the two options the
  source passes. Its result is taken to be a fresh tree.
\<close>

record serialize_options =
  opt_relationships :: "string list option"
  opt_included :: bool

type_synonym serializer = "jsval \<Rightarrow> string \<Rightarrow> serialize_options \<Rightarrow> error + jsval"

text \<open>
  Lines 191-202, \<^verbatim>\<open>serializeResource\<close>. The source reads \<^verbatim>\<open>id\<close> before the back-fill;
  when that \<^verbatim>\<open>id\<close> is an object of the resource, the back-fill changes it in place and the
  serializer sees the changed object. Reading the identifier again after the back-fill
  gives that value: the back-fill changes no truthiness among the four fields, so the same
  field is chosen, and a primitive identifier is the same before and after.
\<close>

definition serializeResource ::
  "serializer \<Rightarrow> jsval \<Rightarrow> string \<Rightarrow> string list \<Rightarrow> bool \<Rightarrow> error + jsval" where
  "serializeResource ser resource type relationships hasRelationships =
     thenE (extractResourceId resource) (\<lambda>id0.
     thenE (if hasRelationships then ensureRelationshipIds resource relationships
            else Inr resource) (\<lambda>resource'.
     thenE (extractResourceId resource') (\<lambda>id.
       ser (JObj (AList.update ''id'' id (spread resource'))) type
         \<lparr>opt_relationships = (if hasRelationships then Some relationships else None),
          opt_included = hasRelationships\<rparr>)))"

section \<open>Normalization Orchestrator\<close>

text \<open>
  Lines 254-269, the base case of \<^verbatim>\<open>normalizeResourceRecursive\<close>. Lines 264-265 change
  \<^verbatim>\<open>result.data.relationships\<close> in place; the value of \<^verbatim>\<open>result\<close> afterwards holds the
  changed relationships when there were any (a truthy value under that key), and is
  untouched otherwise. The value \<^verbatim>\<open>mapTypes\<close> returns on line 265 is dropped: only an
  object is changed in place, an array is copied.
\<close>

definition singleResource ::
  "serializer \<Rightarrow> (string \<Rightarrow> string option) \<Rightarrow> string \<Rightarrow> obj \<Rightarrow> string \<Rightarrow> string list \<Rightarrow> bool
     \<Rightarrow> error + jsval" where
  "singleResource ser relationshipTypeMap url document type relationships hasRelationships =
     thenE (serializeResource ser (lookup document type) type relationships hasRelationships)
       (\<lambda>result.
          if hasRelationships then
            thenE (get result ''data'') (\<lambda>d.
            thenE (get d ''relationships'') (\<lambda>rels.
            thenE (get d ''id'') (\<lambda>rid.
            thenE (addJsonApiLinks rels url rid) (\<lambda>rels1.
            thenE (mapTypes rels1 relationshipTypeMap) (\<lambda>ret.
            thenE (if truthy rels
                   then thenE (put d ''relationships'' (if isObject rels1 then ret else rels1))
                          (\<lambda>d'. put result ''data'' d')
                   else Inr result) (\<lambda>result1.
            thenE (get result1 ''included'') (\<lambda>inc.
            thenE (mapTypes inc relationshipTypeMap) (\<lambda>inc'.
              put result1 ''included'' inc'))))))))
          else Inr result)"

text \<open>\<^verbatim>\<open>resources.flatMap((r) => r.included || [])\<close>: an array is flattened one level.\<close>

definition included_or_empty :: "jsval \<Rightarrow> error + jsval" where
  "included_or_empty r = thenE (get r ''included'') (\<lambda>i. Inr (or_js i (JArr [])))"

fun flatten1 :: "jsval list \<Rightarrow> jsval list" where
  "flatten1 [] = []"
| "flatten1 (JArr ys # vs) = ys @ flatten1 vs"
| "flatten1 (v # vs) = v # flatten1 vs"

text \<open>Lines 243-251: the fragment of a collection, from the fragments of its elements.\<close>

definition aggregate :: "bool \<Rightarrow> jsval list \<Rightarrow> error + jsval" where
  "aggregate hasRelationships resources =
     thenE (mapE (\<lambda>r. get r ''data'') resources) (\<lambda>ds.
       if hasRelationships
       then thenE (mapE included_or_empty resources) (\<lambda>incs.
              Inr (JObj [(''data'', JArr ds), (''included'', JArr (flatten1 incs))]))
       else Inr (JObj [(''data'', JArr ds)]))"

text \<open>The recursion descends into the payload: the sizes of its values bound it.\<close>

definition obj_weight :: "obj \<Rightarrow> nat" where
  "obj_weight kvs = sum_list (map (\<lambda>kv. size (snd kv)) kvs)"

lemma size_lookup: "size (lookup kvs k) \<le> obj_weight kvs"
  by (induction kvs) (auto simp: lookup_def obj_weight_def)

lemma size_element: "x \<in> set xs \<Longrightarrow> size x < size (JArr xs)"
  using size_list_estimation' [of x xs "size x" size] by simp

lemma mapE_cong [fundef_cong]:
  "xs = ys \<Longrightarrow> (\<And>x. x \<in> set ys \<Longrightarrow> f x = g x) \<Longrightarrow> mapE f xs = mapE g ys"
  by (induction ys arbitrary: xs) (auto split: sum.splits)

text \<open>
  Lines 215-270, \<^verbatim>\<open>normalizeResourceRecursive\<close>. \<^verbatim>\<open>document[pluralType].map\<close> is a
  function only on an array; on any other truthy value the call throws.
\<close>

function normalizeResourceRecursive ::
  "serializer \<Rightarrow> (string \<Rightarrow> string) \<Rightarrow> (string \<Rightarrow> string option) \<Rightarrow> string \<Rightarrow> obj \<Rightarrow> string
     \<Rightarrow> string list \<Rightarrow> bool \<Rightarrow> error + jsval" where
  "normalizeResourceRecursive ser pl relationshipTypeMap url document type relationships
       hasRelationships =
     (if isCollectionResponse pl [type] document then
        (case lookup document (pl type) of
           JArr items \<Rightarrow>
             thenE (mapE (\<lambda>resource.
                      normalizeResourceRecursive ser pl relationshipTypeMap url
                        [(type, resource)] type relationships hasRelationships) items)
               (aggregate hasRelationships)
         | v \<Rightarrow> Inl TypeError)
      else singleResource ser relationshipTypeMap url document type relationships
             hasRelationships)"
  by pat_completeness auto

termination normalizeResourceRecursive
proof (relation "measure (\<lambda>(ser, pl, m, url, document, rest). obj_weight document)")
  show "wf (measure (\<lambda>(ser :: serializer, pl :: string \<Rightarrow> string, m :: string \<Rightarrow> string option,
      url :: string, document :: obj, rest :: string \<times> string list \<times> bool). obj_weight document))"
    by simp
next
  fix ser :: serializer and pl :: "string \<Rightarrow> string" and relationshipTypeMap :: "string \<Rightarrow> string option"
    and url :: string and document :: obj and type :: string and relationships :: "string list"
    and hasRelationships :: bool and items resource
  assume look: "lookup document (pl type) = JArr items" and mem: "resource \<in> set items"
  have "size resource < size (JArr items)" using mem by (rule size_element)
  also have "\<dots> \<le> obj_weight document"
    using size_lookup [of document "pl type"] look by simp
  finally show "((ser, pl, relationshipTypeMap, url, [(type, resource)], type, relationships,
        hasRelationships),
      (ser, pl, relationshipTypeMap, url, document, type, relationships, hasRelationships))
    \<in> measure (\<lambda>(ser, pl, m, url, document, rest). obj_weight document)"
    by (simp add: obj_weight_def)
qed

declare normalizeResourceRecursive.simps [simp del]

text \<open>
  Lines 281-302, \<^verbatim>\<open>normalizeResource\<close>; the request context is given by its two parts,
  the schema service and the url.
\<close>

definition normalizeResource ::
  "serializer \<Rightarrow> (string \<Rightarrow> string) \<Rightarrow> obj \<Rightarrow> schema_service \<Rightarrow> string
     \<Rightarrow> (string \<Rightarrow> string option) \<Rightarrow> error + jsval" where
  "normalizeResource ser pl item schema url relationshipTypeMap =
     (let knownTypes = schemas_keys schema;
          type = detectResourceType pl knownTypes item
      in thenE (normalizeResourceData pl item type (Some schema)) (\<lambda>document.
           let relationships = getSchemaRelationships (Some schema) type;
               hasRelationships = (relationships \<noteq> [])
           in normalizeResourceRecursive ser pl relationshipTypeMap url document type
                relationships hasRelationships))"

section \<open>Sample collaborators\<close>

text \<open>
  Concrete arguments for the three parameters, used where a statement is run on an input.
  \<^item> A pluralizer in the manner of the inflector behind \<^verbatim>\<open>pluralize\<close>: a regular noun takes
    \<^verbatim>\<open>s\<close>, and a noun on the inflector's list of uncountable words (\<^verbatim>\<open>sheep\<close>,
    \<^verbatim>\<open>fish\<close>, \<^verbatim>\<open>series\<close>, \<^verbatim>\<open>species\<close>) is returned as it is.
  \<^item> The schemas the application registers (\<^verbatim>\<open>article\<close>, \<^verbatim>\<open>user\<close>, \<^verbatim>\<open>profile\<close>,
    \<^verbatim>\<open>tag\<close>), with the fields they declare; any other type makes the lookup throw.
  \<^item> A serializer of the shape the spec's section 4.4 describes: type, id, the remaining
    fields as attributes and, when relationships are asked for, a linkage per present
    relationship (typed by the property name) with the related objects under
    \<^verbatim>\<open>included\<close>.
\<close>

definition pluralize_sample :: "string \<Rightarrow> string" where
  "pluralize_sample s =
     (if s \<in> set [''sheep'', ''fish'', ''series'', ''species''] then s else s @ ''s'')"

definition plain :: "string \<Rightarrow> schema_field" where
  "plain n = \<lparr>kind = ''field'', name = n\<rparr>"

definition app_schema :: schema_service where
  "app_schema =
     \<lparr>schemas_keys = [''article'', ''user'', ''profile'', ''tag''],
      fields_of = (\<lambda>t.
        if t = ''article'' then
          Some (map plain [''body'', ''description'', ''favorited'', ''favoritesCount'', ''slug'',
                  ''title'', ''tagList'']
                @ [\<lparr>kind = ''belongsTo'', name = ''author''\<rparr>]
                @ map plain [''updatedAt'', ''createdAt''])
        else if t = ''user'' \<or> t = ''profile'' then
          Some (map plain [''username'', ''bio'', ''image'', ''following''])
        else if t = ''tag'' then Some [plain ''name'']
        else None)\<rparr>"

text \<open>A schema whose one type declares \<^verbatim>\<open>title\<close> before \<^verbatim>\<open>name\<close>.\<close>

definition post_fields :: "string \<Rightarrow> schema_field list option" where
  "post_fields t = (if t = ''post'' then Some [plain ''title'', plain ''name''] else None)"

definition post_schema :: schema_service where
  "post_schema = \<lparr>schemas_keys = [''post''], fields_of = post_fields\<rparr>"

definition handler_map :: "string \<Rightarrow> string option" where
  "handler_map = map_of [(''author'', ''user''), (''comments'', ''comment'')]"

definition sample_identifier :: "string \<Rightarrow> jsval \<Rightarrow> jsval" where
  "sample_identifier relName v =
     JObj [(''type'', JStr relName), (''id'', lookup (spread v) ''id'')]"

definition sample_related :: "string \<Rightarrow> jsval \<Rightarrow> jsval" where
  "sample_related relName v =
     JObj [(''type'', JStr relName), (''id'', lookup (spread v) ''id''),
           (''attributes'', JObj (filter (\<lambda>kv. fst kv \<noteq> ''id'') (spread v)))]"

definition sample_serialize :: serializer where
  "sample_serialize entity type opts =
     (case entity of
        JObj kvs \<Rightarrow>
          (let declared = (case opt_relationships opts of None \<Rightarrow> [] | Some rs \<Rightarrow> rs);
               present = filter (\<lambda>r. truthy (lookup kvs r)) declared;
               attrs = filter (\<lambda>kv. fst kv \<noteq> ''id'' \<and> fst kv \<notin> set declared) kvs;
               linkage = (\<lambda>r. (r, JObj [(''data'',
                              (case lookup kvs r of
                                 JArr xs \<Rightarrow> JArr (map (sample_identifier r) xs)
                               | v \<Rightarrow> sample_identifier r v))]));
               related = (\<lambda>r. case lookup kvs r of
                                 JArr xs \<Rightarrow> map (sample_related r) xs
                               | v \<Rightarrow> [sample_related r v])
           in Inr (JObj
                ((''data'', JObj ([(''type'', JStr type), (''id'', lookup kvs ''id''),
                                   (''attributes'', JObj attrs)]
                                  @ (if present = [] then []
                                     else [(''relationships'', JObj (map linkage present))])))
                 # (if opt_included opts \<and> present \<noteq> []
                    then [(''included'', JArr (concat (map related present)))] else []))))
      | v \<Rightarrow> Inl TypeError)"


section \<open>Reading a fragment\<close>

text \<open>
  For the statements about results: \<open>peek v k\<close> is the value of \<^verbatim>\<open>v.k\<close> wherever that
  read does not throw; the included list a fragment contributes to a collection
  (\<^verbatim>\<open>r.included || []\<close>, flattened by \<^verbatim>\<open>flatMap\<close>); and the linked-resource references
  of a relationship (lines 170-173: none when \<^verbatim>\<open>relationship.data\<close> is falsy).
\<close>

definition peek :: "jsval \<Rightarrow> string \<Rightarrow> jsval" where
  "peek v k = (case v of JObj kvs \<Rightarrow> lookup kvs k | w \<Rightarrow> JUndef)"

definition included_list :: "jsval \<Rightarrow> jsval list" where
  "included_list r =
     (case peek r ''included'' of JArr ys \<Rightarrow> ys | v \<Rightarrow> (if truthy v then [v] else []))"

text \<open>A relationship value that the back-fill would leave as it is.\<close>

definition settled :: "jsval \<Rightarrow> bool" where
  "settled v \<longleftrightarrow> \<not> truthy v \<or> backfill_value v = Inr v"

definition linked_items :: "jsval \<Rightarrow> jsval list" where
  "linked_items relationship =
     (if truthy (peek relationship ''data'') then relationship_items (peek relationship ''data'')
      else [])"

section \<open>The spec's wording, for comparison\<close>

text \<open>
  The spec's section 4.3: the identifier of an object is ``the first present of
  \<^verbatim>\<open>id\<close>, \<^verbatim>\<open>slug\<close>, \<^verbatim>\<open>username\<close>, \<^verbatim>\<open>name\<close> in that priority order''.
\<close>

definition resolveId_spec :: "obj \<Rightarrow> jsval" where
  "resolveId_spec kvs =
     (case find (\<lambda>k. k \<in> set (map fst kvs)) [''id'', ''slug'', ''username'', ''name''] of
        None \<Rightarrow> JUndef
      | Some k \<Rightarrow> lookup kvs k)"

text \<open>
  The spec's section 4.1: the property name is ``the first name in a fixed preference
  order \<^verbatim>\<open>[name, title, label, text, value]\<close>'' found among the declared fields, and
  \<^verbatim>\<open>value\<close> if none is.
\<close>

definition propertyName_spec :: "schema_field list \<Rightarrow> string" where
  "propertyName_spec fs =
     (case find (\<lambda>n. n \<in> set (map name (filter (\<lambda>field. kind field = ''field'') fs)))
             [''name'', ''title'', ''label'', ''text'', ''value''] of
        None \<Rightarrow> ''value''
      | Some n \<Rightarrow> n)"

section \<open>Basic facts\<close>

lemma thenE_Inr [simp]: "thenE (Inr x) f = f x"
  by (simp add: thenE_def)

lemma thenE_Inl [simp]: "thenE (Inl e) f = Inl e"
  by (simp add: thenE_def)

lemma thenE_Inr_iff: "thenE m f = Inr y \<longleftrightarrow> (\<exists>x. m = Inr x \<and> f x = Inr y)"
  by (cases m) simp_all

lemma mapE_id: "(\<And>x. x \<in> set xs \<Longrightarrow> f x = Inr x) \<Longrightarrow> mapE f xs = Inr xs"
  by (induction xs) simp_all

lemma lookup_update_same [simp]: "lookup (AList.update k v kvs) k = v"
  by (simp add: lookup_def update_conv')

lemma lookup_update_other [simp]: "k' \<noteq> k \<Longrightarrow> lookup (AList.update k v kvs) k' = lookup kvs k'"
  by (simp add: lookup_def update_conv')

lemma String_js_Inr: "String_js v = Inr s \<Longrightarrow> s = string_text v"
  by (auto simp: String_js_def split: if_splits)

lemma String_throws_primitive: "isPrimitive v \<Longrightarrow> \<not> String_throws v"
  by (cases v) simp_all

lemma get_Inr_peek: "get v k = Inr x \<Longrightarrow> x = peek v k"
  by (cases v) (auto simp: peek_def)

lemma mapE_Cons_Inr:
  "mapE f (x # xs) = Inr ys \<longleftrightarrow> (\<exists>y ys'. f x = Inr y \<and> mapE f xs = Inr ys' \<and> ys = y # ys')"
  by (auto split: sum.splits)

lemma mapE_Inr_iff: "mapE f xs = Inr ys \<longleftrightarrow> list_all2 (\<lambda>x y. f x = Inr y) xs ys"
proof (induction xs arbitrary: ys)
  case Nil
  then show ?case by auto
next
  case (Cons x xs)
  show ?case
    unfolding mapE_Cons_Inr list_all2_Cons1 Cons.IH by blast
qed

lemma put_Inr: "put v k x = Inr v' \<Longrightarrow> \<exists>kvs. v = JObj kvs \<and> v' = JObj (AList.update k x kvs)"
  by (cases v) auto

lemma peek_put_same: "put v k x = Inr v' \<Longrightarrow> peek v' k = x"
  by (auto dest!: put_Inr simp: peek_def)

lemma peek_put_other: "put v k x = Inr v' \<Longrightarrow> k' \<noteq> k \<Longrightarrow> peek v' k' = peek v k'"
  by (auto dest!: put_Inr simp: peek_def)

lemma list_all2_compose:
  "list_all2 P xs ys \<Longrightarrow> list_all2 Q ys zs \<Longrightarrow>
   list_all2 (\<lambda>x z. \<exists>y. P x y \<and> Q y z) xs zs"
proof (induction xs ys arbitrary: zs rule: list_all2_induct)
  case Nil
  then show ?case by simp
next
  case (Cons x xs y ys)
  then show ?case by (cases zs) auto
qed

lemma thenE_InrE:
  assumes "thenE x f = Inr y"
  obtains a where "x = Inr a" and "f a = Inr y"
  using assms by (cases x) simp_all

lemma mapE_get_peek: "mapE (\<lambda>r. get r k) rs = Inr vs \<Longrightarrow> vs = map (\<lambda>r. peek r k) rs"
  by (induction rs arbitrary: vs) (auto split: sum.splits dest: get_Inr_peek)

lemma flatten1_included:
  "mapE included_or_empty rs = Inr incs \<Longrightarrow> flatten1 incs = concat (map included_list rs)"
proof (induction rs arbitrary: incs)
  case Nil
  then show ?case by simp
next
  case (Cons r rs)
  from Cons.prems obtain i incs' where
    i: "included_or_empty r = Inr i" and rest: "mapE included_or_empty rs = Inr incs'"
    and incs: "incs = i # incs'"
    by (auto split: sum.splits)
  from i have "i = or_js (peek r ''included'') (JArr [])"
    by (auto simp: included_or_empty_def thenE_Inr_iff dest: get_Inr_peek)
  then have "flatten1 (i # incs') = included_list r @ flatten1 incs'"
    by (cases "peek r ''included''") (simp_all add: or_js_def included_list_def)
  with Cons.IH [OF rest] incs show ?case by simp
qed

lemma aggregate_Inr:
  assumes "aggregate has rs = Inr out"
  shows "get out ''data'' = Inr (JArr (map (\<lambda>r. peek r ''data'') rs))
         \<and> (if has then get out ''included'' = Inr (JArr (concat (map included_list rs)))
                      \<and> map fst (spread out) = [''data'', ''included'']
             else map fst (spread out) = [''data''])"
proof -
  from assms obtain ds where ds: "mapE (\<lambda>r. get r ''data'') rs = Inr ds"
    and rest: "(if has
       then thenE (mapE included_or_empty rs) (\<lambda>incs.
              Inr (JObj [(''data'', JArr ds), (''included'', JArr (flatten1 incs))]))
       else Inr (JObj [(''data'', JArr ds)])) = Inr out"
    by (auto simp: aggregate_def thenE_Inr_iff)
  have d: "ds = map (\<lambda>r. peek r ''data'') rs" using ds by (rule mapE_get_peek)
  show ?thesis
  proof (cases has)
    case False
    with rest d show ?thesis by (auto simp: lookup_def)
  next
    case True
    with rest obtain incs where incs: "mapE included_or_empty rs = Inr incs"
      and out: "out = JObj [(''data'', JArr ds), (''included'', JArr (flatten1 incs))]"
      by (auto simp: thenE_Inr_iff)
    from incs have "flatten1 incs = concat (map included_list rs)" by (rule flatten1_included)
    with True out d show ?thesis by (simp add: lookup_def)
  qed
qed

section \<open>The identifier resolver\<close>

text \<open>
  C5 (amended). \<^verbatim>\<open>extractResourceId\<close> returns the string form of a string or a number.
  For an object it returns the first \<^emph>\<open>truthy\<close> value among \<^verbatim>\<open>id\<close>, \<^verbatim>\<open>slug\<close>,
  \<^verbatim>\<open>username\<close>, \<^verbatim>\<open>name\<close>, in that order, and the value of \<^verbatim>\<open>name\<close> (\<^verbatim>\<open>undefined\<close>
  when absent) if none is truthy: a field that is present but \<^verbatim>\<open>0\<close>, \<^verbatim>\<open>""\<close>,
  \<^verbatim>\<open>null\<close> or \<^verbatim>\<open>false\<close> is passed over. On \<^verbatim>\<open>null\<close> and \<^verbatim>\<open>undefined\<close> it throws.
\<close>

theorem extractResourceId_first_truthy:
  "extractResourceId (JStr s) = Inr (JStr s)
   \<and> extractResourceId (JNum n) = Inr (JStr (string_of_int n))
   \<and> extractResourceId (JObj kvs) =
       Inr (if truthy (lookup kvs ''id'') then lookup kvs ''id''
            else if truthy (lookup kvs ''slug'') then lookup kvs ''slug''
            else if truthy (lookup kvs ''username'') then lookup kvs ''username''
            else lookup kvs ''name'')
   \<and> extractResourceId JNull = Inl TypeError
   \<and> extractResourceId JUndef = Inl TypeError"
  by (simp add: extractResourceId_def or_js_def String_js_def)

text \<open>
  The claim as stated fails on \<^verbatim>\<open>{ id: 0, slug: "intro" }\<close>: \<^verbatim>\<open>id\<close> is present, and the
  code returns the slug.
\<close>

theorem extractResourceId_present_counterexample:
  "extractResourceId (JObj [(''id'', JNum 0), (''slug'', JStr ''intro'')]) = Inr (JStr ''intro'')
   \<and> resolveId_spec [(''id'', JNum 0), (''slug'', JStr ''intro'')] = JNum 0
   \<and> extractResourceId (JObj [(''id'', JNum 0), (''slug'', JStr ''intro'')])
       \<noteq> Inr (resolveId_spec [(''id'', JNum 0), (''slug'', JStr ''intro'')])"
  by (simp add: extractResourceId_def or_js_def lookup_def resolveId_spec_def)

section \<open>Primitive coercion\<close>

lemma propertyName_of_cases:
  "propertyName_of schema type \<in> set [''name'', ''title'', ''label'', ''text'', ''value'']"
  unfolding propertyName_of_def
  by (auto split: option.splits dest!: find_Some_iff [THEN iffD1] simp: holds_primitive_def)

lemma coerce_item_literal:
  "coerce_item (propertyName_of schema type) item =
     (if String_throws item then Inl TypeError
      else Inr (JObj [(''id'', JStr (string_text item)), (propertyName_of schema type, item)]))"
  using propertyName_of_cases [of schema type] by (auto simp: coerce_item_def String_js_def)

lemma mapE_coerce_item:
  "mapE (coerce_item (propertyName_of schema type)) items =
     (if list_ex String_throws items then Inl TypeError
      else Inr (map (\<lambda>element. JObj [(''id'', JStr (string_text element)),
                                     (propertyName_of schema type, element)]) items))"
  by (induction items) (simp_all add: coerce_item_literal)

lemma not_primitive_coerced:
  "\<not> list_ex isPrimitive (map (\<lambda>element. JObj [(''id'', JStr (f element)), (p, element)]) items)"
  by (induction items) simp_all

lemma normalizeResourceData_coerces:
  "lookup data (pl type) = JArr items \<Longrightarrow> list_ex isPrimitive items \<Longrightarrow>
   normalizeResourceData pl data type schema =
     (if list_ex String_throws items then Inl TypeError
      else Inr (AList.update (pl type)
             (JArr (map (\<lambda>element. JObj [(''id'', JStr (string_text element)),
                                          (propertyName_of schema type, element)]) items)) data))"
  by (simp add: normalizeResourceData_def mapE_coerce_item)

lemma primitives_convert: "list_all isPrimitive items \<Longrightarrow> \<not> list_ex String_throws items"
  by (induction items) (simp_all add: String_throws_primitive)

text \<open>
  C4 (amended). When the pluralized array is a (non-empty) array of primitives, every
  element \<open>e\<close> becomes \<^verbatim>\<open>{ id: String(e), [propertyName]: e }\<close>. The property name is
  \<^verbatim>\<open>value\<close> when the schema lookup throws (or there is no schema) or when no declared
  field is a plain field named one of \<^verbatim>\<open>name\<close>, \<^verbatim>\<open>title\<close>, \<^verbatim>\<open>label\<close>,
  \<^verbatim>\<open>text\<close>, \<^verbatim>\<open>value\<close>; otherwise it is the name of the first such field \<^emph>\<open>in the
  order the schema declares its fields\<close>. The list of five names is a set of candidates,
  not a preference order.
\<close>

theorem coercion_property_name:
  assumes arr: "lookup data (pl type) = JArr items"
    and prims: "list_all isPrimitive items" and some: "items \<noteq> []"
  shows "normalizeResourceData pl data type schema =
           Inr (AList.update (pl type)
                 (JArr (map (\<lambda>element. JObj [(''id'', JStr (string_text element)),
                                              (propertyName_of schema type, element)]) items))
                 data)
         \<and> propertyName_of None type = ''value''
         \<and> (\<forall>s. fields_of s type = None \<longrightarrow> propertyName_of (Some s) type = ''value'')
         \<and> (\<forall>s fs. fields_of s type = Some fs \<and> (\<forall>field \<in> set fs. \<not> holds_primitive field)
               \<longrightarrow> propertyName_of (Some s) type = ''value'')
         \<and> (\<forall>s fs i. fields_of s type = Some fs \<and> i < length fs \<and> holds_primitive (fs ! i)
                 \<and> (\<forall>j<i. \<not> holds_primitive (fs ! j))
               \<longrightarrow> propertyName_of (Some s) type = name (fs ! i))"
proof -
  have ex: "list_ex isPrimitive items"
    using prims some by (cases items) simp_all
  have "normalizeResourceData pl data type schema =
      Inr (AList.update (pl type)
            (JArr (map (\<lambda>element. JObj [(''id'', JStr (string_text element)),
                                         (propertyName_of schema type, element)]) items)) data)"
    using arr ex primitives_convert [OF prims] by (simp add: normalizeResourceData_coerces)
  moreover have "\<And>(s :: schema_service) fs. fields_of s type = Some fs
      \<Longrightarrow> \<forall>field \<in> set fs. \<not> holds_primitive field
      \<Longrightarrow> propertyName_of (Some s) type = ''value''"
  proof -
    fix s :: schema_service and fs
    assume f: "fields_of s type = Some fs" and none: "\<forall>field \<in> set fs. \<not> holds_primitive field"
    have "find holds_primitive fs = None" using none by (simp add: find_None_iff)
    then show "propertyName_of (Some s) type = ''value''"
      using f by (simp add: propertyName_of_def)
  qed
  moreover have "\<And>(s :: schema_service) fs i. fields_of s type = Some fs \<Longrightarrow> i < length fs
      \<Longrightarrow> holds_primitive (fs ! i) \<Longrightarrow> \<forall>j<i. \<not> holds_primitive (fs ! j)
      \<Longrightarrow> propertyName_of (Some s) type = name (fs ! i)"
  proof -
    fix s :: schema_service and fs i
    assume f: "fields_of s type = Some fs" and i: "i < length fs" and h: "holds_primitive (fs ! i)"
      and first: "\<forall>j<i. \<not> holds_primitive (fs ! j)"
    have "find holds_primitive fs = Some (fs ! i)"
      using i h first unfolding find_Some_iff by blast
    then show "propertyName_of (Some s) type = name (fs ! i)"
      using f by (simp add: propertyName_of_def)
  qed
  moreover have "propertyName_of None type = ''value''"
    by (simp add: propertyName_of_def)
  moreover have "\<And>s :: schema_service. fields_of s type = None
      \<Longrightarrow> propertyName_of (Some s) type = ''value''"
    by (simp add: propertyName_of_def)
  ultimately show ?thesis
    by simp
qed

theorem coercion_property_name_witness:
  "lookup [(''tags'', JArr [JStr ''ember'', JStr ''rust''])] (pluralize_sample ''tag'') =
     JArr [JStr ''ember'', JStr ''rust'']
   \<and> list_all isPrimitive [JStr ''ember'', JStr ''rust'']
   \<and> fields_of app_schema ''tag'' = Some [plain ''name'']
   \<and> holds_primitive ([plain ''name''] ! 0)
   \<and> propertyName_of (Some app_schema) ''tag'' = ''name''
   \<and> normalizeResourceData pluralize_sample [(''tags'', JArr [JStr ''ember'', JStr ''rust''])]
        ''tag'' (Some app_schema) =
       Inr [(''tags'', JArr [JObj [(''id'', JStr ''ember''), (''name'', JStr ''ember'')],
                             JObj [(''id'', JStr ''rust''), (''name'', JStr ''rust'')]])]"
proof -
  have h1: "lookup [(''tags'', JArr [JStr ''ember'', JStr ''rust''])] (pluralize_sample ''tag'') =
      JArr [JStr ''ember'', JStr ''rust'']"
    by (simp add: lookup_def pluralize_sample_def)
  have h2: "list_all isPrimitive [JStr ''ember'', JStr ''rust'']" by simp
  have h3: "[JStr ''ember'', JStr ''rust''] \<noteq> []" by simp
  have f: "fields_of app_schema ''tag'' = Some [plain ''name'']"
    by (simp add: app_schema_def)
  have hp: "holds_primitive ([plain ''name''] ! 0)"
    by (simp add: holds_primitive_def plain_def)
  note t = coercion_property_name [where pl = pluralize_sample and type = "''tag''"
      and schema = "Some app_schema", OF h1 h2 h3]
  from t have "\<forall>s fs i. fields_of s ''tag'' = Some fs \<and> i < length fs \<and> holds_primitive (fs ! i)
        \<and> (\<forall>j<i. \<not> holds_primitive (fs ! j))
      \<longrightarrow> propertyName_of (Some s) ''tag'' = name (fs ! i)"
    by blast
  then have "fields_of app_schema ''tag'' = Some [plain ''name''] \<and> 0 < length [plain ''name'']
        \<and> holds_primitive ([plain ''name''] ! 0) \<and> (\<forall>j<0. \<not> holds_primitive ([plain ''name''] ! j))
      \<longrightarrow> propertyName_of (Some app_schema) ''tag'' = name ([plain ''name''] ! 0)"
    by blast
  with f hp have p: "propertyName_of (Some app_schema) ''tag'' = name ([plain ''name''] ! 0)"
    by simp
  then have p': "propertyName_of (Some app_schema) ''tag'' = ''name''"
    by (simp add: plain_def)
  from t have "normalizeResourceData pluralize_sample
        [(''tags'', JArr [JStr ''ember'', JStr ''rust''])] ''tag'' (Some app_schema) =
      Inr (AList.update (pluralize_sample ''tag'')
        (JArr (map (\<lambda>element. JObj [(''id'', JStr (string_text element)),
                     (propertyName_of (Some app_schema) ''tag'', element)])
               [JStr ''ember'', JStr ''rust'']))
        [(''tags'', JArr [JStr ''ember'', JStr ''rust''])])"
    by (rule conjunct1)
  then have "normalizeResourceData pluralize_sample
        [(''tags'', JArr [JStr ''ember'', JStr ''rust''])] ''tag'' (Some app_schema) =
      Inr [(''tags'', JArr [JObj [(''id'', JStr ''ember''), (''name'', JStr ''ember'')],
                            JObj [(''id'', JStr ''rust''), (''name'', JStr ''rust'')]])]"
    by (simp add: p' pluralize_sample_def)
  with h1 h2 f hp p' show ?thesis by simp
qed

text \<open>
  The claim as stated fails on a type that declares \<^verbatim>\<open>title\<close> before \<^verbatim>\<open>name\<close>: the
  preference order puts \<^verbatim>\<open>name\<close> first, the code takes \<^verbatim>\<open>title\<close>.
\<close>

theorem coercion_preference_counterexample:
  "normalizeResourceData pluralize_sample [(''posts'', JArr [JStr ''a''])] ''post''
     (Some post_schema) =
     Inr [(''posts'', JArr [JObj [(''id'', JStr ''a''), (''title'', JStr ''a'')]])]
   \<and> fields_of post_schema ''post'' = Some [plain ''title'', plain ''name'']
   \<and> propertyName_spec [plain ''title'', plain ''name''] = ''name''
   \<and> propertyName_of (Some post_schema) ''post'' \<noteq> propertyName_spec [plain ''title'', plain ''name'']"
  by (simp add: normalizeResourceData_def lookup_def pluralize_sample_def coerce_item_def
      String_js_def propertyName_of_def post_schema_def post_fields_def holds_primitive_def
      plain_def propertyName_spec_def)

text \<open>
  C10 (amended). Let the pluralized array hold at least one primitive and at least one
  object. If \<^verbatim>\<open>String\<close> returns on every element, the coercion replaces every element,
  the objects too: an element \<open>e\<close> becomes \<^verbatim>\<open>{ id: String(e), [propertyName]: e }\<close>, and for
  an object that id is \<^verbatim>\<open>[object Object]\<close>, the string rendering of the object and not an
  identifier taken from its fields. If \<^verbatim>\<open>String\<close> throws on an element (an object with
  an own \<^verbatim>\<open>toString\<close> property, or an array that holds one), the coercion throws a
  TypeError and replaces nothing.
\<close>

theorem coercion_replaces_objects:
  assumes arr: "lookup data (pl type) = JArr items"
    and prim: "a \<in> set items" "isPrimitive a"
    and obj: "JObj kvs \<in> set items"
  shows "(\<not> list_ex String_throws items \<longrightarrow>
            normalizeResourceData pl data type schema =
              Inr (AList.update (pl type)
                    (JArr (map (\<lambda>element. JObj [(''id'', JStr (string_text element)),
                                                 (propertyName_of schema type, element)]) items))
                    data)
            \<and> JObj [(''id'', JStr ''[object Object]''), (propertyName_of schema type, JObj kvs)]
                \<in> set (map (\<lambda>element. JObj [(''id'', JStr (string_text element)),
                                             (propertyName_of schema type, element)]) items))
         \<and> (list_ex String_throws items \<longrightarrow>
              normalizeResourceData pl data type schema = Inl TypeError)
         \<and> String_throws (JObj kvs) = (''toString'' \<in> set (map fst kvs))"
proof -
  have ex: "list_ex isPrimitive items" using prim by (auto simp: list_ex_iff)
  have run: "normalizeResourceData pl data type schema =
     (if list_ex String_throws items then Inl TypeError
      else Inr (AList.update (pl type)
             (JArr (map (\<lambda>element. JObj [(''id'', JStr (string_text element)),
                                          (propertyName_of schema type, element)]) items)) data))"
    using arr ex by (rule normalizeResourceData_coerces)
  have "JObj [(''id'', JStr (string_text (JObj kvs))), (propertyName_of schema type, JObj kvs)]
             \<in> set (map (\<lambda>element. JObj [(''id'', JStr (string_text element)),
                                        (propertyName_of schema type, element)]) items)"
    using obj by force
  with run show ?thesis by simp
qed

theorem coercion_replaces_objects_witness:
  "lookup [(''tags'', JArr [JStr ''ember'', JObj [(''name'', JStr ''rust'')]])]
       (pluralize_sample ''tag'') = JArr [JStr ''ember'', JObj [(''name'', JStr ''rust'')]]
   \<and> JStr ''ember'' \<in> set [JStr ''ember'', JObj [(''name'', JStr ''rust'')]]
   \<and> isPrimitive (JStr ''ember'')
   \<and> JObj [(''name'', JStr ''rust'')] \<in> set [JStr ''ember'', JObj [(''name'', JStr ''rust'')]]
   \<and> \<not> list_ex String_throws [JStr ''ember'', JObj [(''name'', JStr ''rust'')]]
   \<and> normalizeResourceData pluralize_sample
        [(''tags'', JArr [JStr ''ember'', JObj [(''name'', JStr ''rust'')]])] ''tag''
        (Some app_schema) =
       Inr [(''tags'',
             JArr [JObj [(''id'', JStr ''ember''), (''name'', JStr ''ember'')],
                   JObj [(''id'', JStr ''[object Object]''),
                         (''name'', JObj [(''name'', JStr ''rust'')])]])]"
proof -
  have h1: "lookup [(''tags'', JArr [JStr ''ember'', JObj [(''name'', JStr ''rust'')]])]
       (pluralize_sample ''tag'') = JArr [JStr ''ember'', JObj [(''name'', JStr ''rust'')]]"
    by (simp add: lookup_def pluralize_sample_def)
  have h2: "JStr ''ember'' \<in> set [JStr ''ember'', JObj [(''name'', JStr ''rust'')]]" by simp
  have h3: "isPrimitive (JStr ''ember'')" by simp
  have h4: "JObj [(''name'', JStr ''rust'')] \<in> set [JStr ''ember'', JObj [(''name'', JStr ''rust'')]]"
    by simp
  have h5: "\<not> list_ex String_throws [JStr ''ember'', JObj [(''name'', JStr ''rust'')]]"
    by simp
  have p: "propertyName_of (Some app_schema) ''tag'' = ''name''"
    by (simp add: propertyName_of_def app_schema_def holds_primitive_def plain_def)
  from coercion_replaces_objects [where pl = pluralize_sample and type = "''tag''"
      and schema = "Some app_schema", OF h1 h2 h3 h4] h5
  have "normalizeResourceData pluralize_sample
        [(''tags'', JArr [JStr ''ember'', JObj [(''name'', JStr ''rust'')]])] ''tag''
        (Some app_schema) =
       Inr (AList.update (pluralize_sample ''tag'')
             (JArr (map (\<lambda>element. JObj [(''id'', JStr (string_text element)),
                          (propertyName_of (Some app_schema) ''tag'', element)])
                    [JStr ''ember'', JObj [(''name'', JStr ''rust'')]]))
             [(''tags'', JArr [JStr ''ember'', JObj [(''name'', JStr ''rust'')]])])"
    by blast
  then have "normalizeResourceData pluralize_sample
        [(''tags'', JArr [JStr ''ember'', JObj [(''name'', JStr ''rust'')]])] ''tag''
        (Some app_schema) =
       Inr [(''tags'',
             JArr [JObj [(''id'', JStr ''ember''), (''name'', JStr ''ember'')],
                   JObj [(''id'', JStr ''[object Object]''),
                         (''name'', JObj [(''name'', JStr ''rust'')])]])]"
    by (simp add: p pluralize_sample_def)
  with h1 h2 h3 h4 h5 show ?thesis by simp
qed

text \<open>
  The claim as stated fails on \<^verbatim>\<open>{ tags: ["ember", { toString: "x" }] }\<close>: the array
  holds a primitive and an object, \<^verbatim>\<open>String\<close> throws on the object, and no element is
  replaced.
\<close>

theorem coercion_toString_counterexample:
  "lookup [(''tags'', JArr [JStr ''ember'', JObj [(''toString'', JStr ''x'')]])]
       (pluralize_sample ''tag'') = JArr [JStr ''ember'', JObj [(''toString'', JStr ''x'')]]
   \<and> isPrimitive (JStr ''ember'')
   \<and> isObject (JObj [(''toString'', JStr ''x'')])
   \<and> String_js (JObj [(''toString'', JStr ''x'')]) = Inl TypeError
   \<and> normalizeResourceData pluralize_sample
        [(''tags'', JArr [JStr ''ember'', JObj [(''toString'', JStr ''x'')]])] ''tag''
        (Some app_schema) = Inl TypeError"
  by (simp add: normalizeResourceData_def lookup_def pluralize_sample_def coerce_item_def
      String_js_def)

section \<open>Idempotence\<close>

lemma normalizeResourceData_idem:
  "thenE (normalizeResourceData pl data type schema)
     (\<lambda>data'. normalizeResourceData pl data' type schema') =
   normalizeResourceData pl data type schema"
proof (cases "\<exists>items. lookup data (pl type) = JArr items \<and> list_ex isPrimitive items")
  case True
  then obtain items where arr: "lookup data (pl type) = JArr items" and ex: "list_ex isPrimitive items"
    by blast
  note first = normalizeResourceData_coerces [where pl = pl and type = type
      and schema = schema, OF arr ex]
  show ?thesis
  proof (cases "list_ex String_throws items")
    case True
    with first show ?thesis by simp
  next
    case False
    with first show ?thesis
      by (simp add: normalizeResourceData_def [of pl "AList.update _ _ _"] not_primitive_coerced)
  qed
next
  case False
  then have "normalizeResourceData pl data type schema = Inr data"
    by (auto simp: normalizeResourceData_def Let_def split: jsval.splits)
  moreover from False have "normalizeResourceData pl data type schema' = Inr data"
    by (auto simp: normalizeResourceData_def Let_def split: jsval.splits)
  ultimately show ?thesis by simp
qed

lemma ensureItemId_unchanged:
  "(isObject item \<longrightarrow> truthy (lookup (spread item) ''id'')) \<Longrightarrow> ensureItemId item = Inr item"
  by (cases item) (simp_all add: ensureItemId_def)

lemma ensureRelationship_unchanged:
  assumes "\<forall>item \<in> set (relationship_items (lookup kvs relName)).
             isObject item \<longrightarrow> truthy (lookup (spread item) ''id'')"
  shows "ensureRelationship (JObj kvs) relName = Inr (JObj kvs)"
proof (cases "truthy (lookup kvs relName)")
  case False
  then show ?thesis by (simp add: ensureRelationship_def)
next
  case True
  then have "\<exists>v. map_of kvs relName = Some v \<and> lookup kvs relName = v"
    by (cases "map_of kvs relName") (simp_all add: lookup_def)
  then obtain v where held: "map_of kvs relName = Some v" and val: "lookup kvs relName = v"
    by blast
  have same: "AList.update relName v kvs = kvs" using held by (rule update_triv)
  have "backfill_value v = Inr v"
  proof (cases v)
    case (JArr items)
    with assms val have "mapE ensureItemId items = Inr items"
      by (intro mapE_id ensureItemId_unchanged) (simp add: relationship_items_def)
    with JArr show ?thesis by (simp add: backfill_value_def)
  qed (use assms val in
      \<open>simp_all add: backfill_value_def relationship_items_def ensureItemId_unchanged\<close>)
  then show ?thesis using True val same by (simp add: ensureRelationship_def)
qed

lemma ensureRelationshipIds_unchanged:
  "(\<forall>relName \<in> set rels. \<forall>item \<in> set (relationship_items (lookup kvs relName)).
       isObject item \<longrightarrow> truthy (lookup (spread item) ''id''))
   \<Longrightarrow> ensureRelationshipIds (JObj kvs) rels = Inr (JObj kvs)"
  unfolding ensureRelationshipIds_def
  by (induction rels) (simp_all add: ensureRelationship_unchanged)

lemma ensureItemId_settles:
  assumes "ensureItemId item = Inr item'"
  shows "ensureItemId item' = Inr item'"
proof (cases item)
  case (JObj kvs)
  show ?thesis
  proof (cases "truthy (lookup kvs ''id'')")
    case True
    with JObj assms have "item' = JObj kvs" by (simp add: ensureItemId_def)
    with True show ?thesis by (simp add: ensureItemId_def)
  next
    case False
    let ?i = "or_js (or_js (or_js (lookup kvs ''id'') (lookup kvs ''slug''))
                 (lookup kvs ''username'')) (lookup kvs ''name'')"
    from JObj False assms have item': "item' = JObj (AList.update ''id'' ?i kvs)"
      by (simp add: ensureItemId_def extractResourceId_def)
    show ?thesis
    proof (cases "truthy ?i")
      case True
      with item' show ?thesis by (simp add: ensureItemId_def)
    next
      case no: False
      with False have "?i = lookup kvs ''name''"
        by (simp add: or_js_def split: if_splits)
      with no have "or_js (or_js (or_js ?i (lookup kvs ''slug'')) (lookup kvs ''username''))
          (lookup kvs ''name'') = ?i"
        by (simp add: or_js_def split: if_splits)
      with no item' show ?thesis
        by (simp add: ensureItemId_def extractResourceId_def)
    qed
  qed
qed (use assms in \<open>auto simp: ensureItemId_def\<close>)

lemma mapE_settles:
  "(\<And>x y. f x = Inr y \<Longrightarrow> f y = Inr y) \<Longrightarrow> mapE f xs = Inr ys \<Longrightarrow> mapE f ys = Inr ys"
proof (induction xs arbitrary: ys)
  case Nil
  then show ?case by simp
next
  case (Cons x xs)
  from Cons.prems(2) obtain y ys' where "f x = Inr y" "mapE f xs = Inr ys'" "ys = y # ys'"
    unfolding mapE_Cons_Inr by blast
  with Cons.IH [OF Cons.prems(1)] Cons.prems(1) show ?case by simp
qed

lemma backfill_value_settles:
  assumes "backfill_value v = Inr v'"
  shows "backfill_value v' = Inr v' \<and> truthy v' = truthy v"
proof (cases v)
  case (JArr items)
  with assms obtain items' where m: "mapE ensureItemId items = Inr items'" and v': "v' = JArr items'"
    by (auto simp: backfill_value_def thenE_Inr_iff)
  from m have "mapE ensureItemId items' = Inr items'"
    by (rule mapE_settles [rotated]) (rule ensureItemId_settles)
  with v' JArr show ?thesis by (simp add: backfill_value_def)
next
  case (JObj kvs)
  with assms have e: "ensureItemId v = Inr v'" by (simp add: backfill_value_def)
  then have "ensureItemId v' = Inr v'" by (rule ensureItemId_settles)
  moreover from e JObj have "\<exists>kvs'. v' = JObj kvs'"
    by (auto simp: ensureItemId_def thenE_Inr_iff extractResourceId_def split: if_splits)
  ultimately show ?thesis using JObj by (auto simp: backfill_value_def)
qed (use assms in \<open>auto simp: backfill_value_def ensureItemId_def\<close>)

lemma ensureRelationship_settled:
  assumes "settled (peek r relName)" and "r \<noteq> JUndef" "r \<noteq> JNull"
  shows "ensureRelationship r relName = Inr r"
proof (cases r)
  case (JObj kvs)
  show ?thesis
  proof (cases "truthy (lookup kvs relName)")
    case False
    with JObj show ?thesis by (simp add: ensureRelationship_def)
  next
    case True
    then have "\<exists>v. map_of kvs relName = Some v \<and> lookup kvs relName = v"
      by (cases "map_of kvs relName") (simp_all add: lookup_def)
    then obtain v where held: "map_of kvs relName = Some v" and val: "lookup kvs relName = v"
      by blast
    have same: "AList.update relName v kvs = kvs" using held by (rule update_triv)
    from assms(1) JObj True val have "backfill_value v = Inr v"
      by (simp add: settled_def peek_def)
    with JObj True val same show ?thesis by (simp add: ensureRelationship_def)
  qed
qed (use assms in \<open>simp_all add: ensureRelationship_def\<close>)

lemma ensureRelationship_step:
  assumes "ensureRelationship r relName = Inr r'"
  shows "settled (peek r' relName)
         \<and> (\<forall>k. settled (peek r k) \<longrightarrow> settled (peek r' k))
         \<and> r' \<noteq> JUndef \<and> r' \<noteq> JNull"
proof (cases r)
  case (JObj kvs)
  show ?thesis
  proof (cases "truthy (lookup kvs relName)")
    case False
    with JObj assms have "r' = r" by (simp add: ensureRelationship_def)
    with False JObj show ?thesis by (simp add: settled_def peek_def)
  next
    case True
    with JObj assms obtain v' where b: "backfill_value (lookup kvs relName) = Inr v'"
      and r': "r' = JObj (AList.update relName v' kvs)"
      by (auto simp: ensureRelationship_def thenE_Inr_iff)
    from backfill_value_settles [OF b] have s: "settled v'" by (simp add: settled_def)
    have "settled (peek r' k)" if "settled (peek r k)" for k
      using that s r' JObj by (cases "k = relName") (simp_all add: peek_def)
    with s r' show ?thesis by (simp add: peek_def)
  qed
qed (use assms in \<open>auto simp: ensureRelationship_def settled_def peek_def\<close>)

lemma foldE_ensure_invariant:
  assumes "foldE ensureRelationship r rels = Inr r'"
  shows "(\<forall>k. settled (peek r k) \<longrightarrow> settled (peek r' k))
         \<and> (\<forall>k \<in> set rels. settled (peek r' k))
         \<and> (rels \<noteq> [] \<longrightarrow> r' \<noteq> JUndef \<and> r' \<noteq> JNull)"
  using assms
proof (induction rels arbitrary: r)
  case Nil
  then show ?case by simp
next
  case (Cons n rels)
  from Cons.prems obtain r1 where one: "ensureRelationship r n = Inr r1"
    and rest: "foldE ensureRelationship r1 rels = Inr r'"
    by (auto split: sum.splits)
  note s = ensureRelationship_step [OF one]
  note ih = Cons.IH [OF rest]
  have "r' \<noteq> JUndef \<and> r' \<noteq> JNull"
  proof (cases rels)
    case Nil
    with rest s show ?thesis by simp
  next
    case (Cons a list)
    with ih show ?thesis by simp
  qed
  with s ih show ?case by auto
qed

lemma foldE_ensure_settled:
  "(\<forall>k \<in> set rels. settled (peek r k)) \<Longrightarrow> r \<noteq> JUndef \<Longrightarrow> r \<noteq> JNull \<Longrightarrow>
   foldE ensureRelationship r rels = Inr r"
  by (induction rels) (simp_all add: ensureRelationship_settled)

lemma ensureRelationshipIds_idem:
  assumes "ensureRelationshipIds r rels = Inr r'"
  shows "ensureRelationshipIds r' rels = Inr r'"
proof (cases rels)
  case Nil
  then show ?thesis by (simp add: ensureRelationshipIds_def)
next
  case (Cons a list)
  from assms have "foldE ensureRelationship r rels = Inr r'"
    by (simp add: ensureRelationshipIds_def)
  from foldE_ensure_invariant [OF this] Cons
  have "\<forall>k \<in> set rels. settled (peek r' k)" and "r' \<noteq> JUndef" and "r' \<noteq> JNull"
    by simp_all
  then show ?thesis
    unfolding ensureRelationshipIds_def by (rule foldE_ensure_settled)
qed

text \<open>
  C8. Coercing the payload a first coercion returned (whatever schema the second pass is
  given) returns that payload again: its array holds objects only. Running the id back-fill on
  a resource whose relationship objects all carry a (truthy) id returns the resource
  unchanged; and running it on the resource a first back-fill returned returns that
  resource again.
\<close>

theorem coercion_and_backfill_idempotent:
  "thenE (normalizeResourceData pl data type schema)
     (\<lambda>data'. normalizeResourceData pl data' type schema') =
   normalizeResourceData pl data type schema
   \<and> ((\<forall>relName \<in> set rels. \<forall>item \<in> set (relationship_items (lookup kvs relName)).
          isObject item \<longrightarrow> truthy (lookup (spread item) ''id''))
       \<longrightarrow> ensureRelationshipIds (JObj kvs) rels = Inr (JObj kvs))
   \<and> (ensureRelationshipIds r rels' = Inr r' \<longrightarrow> ensureRelationshipIds r' rels' = Inr r')"
  by (simp add: normalizeResourceData_idem ensureRelationshipIds_unchanged
      ensureRelationshipIds_idem)

theorem coercion_and_backfill_idempotent_witness:
  "relationship_items
       (lookup [(''title'', JStr ''X''),
                (''author'', JObj [(''id'', JNum 7), (''username'', JStr ''jd'')])] ''author'') =
     [JObj [(''id'', JNum 7), (''username'', JStr ''jd'')]]
   \<and> truthy (lookup (spread (JObj [(''id'', JNum 7), (''username'', JStr ''jd'')])) ''id'')
   \<and> ensureRelationshipIds
        (JObj [(''title'', JStr ''X''),
               (''author'', JObj [(''id'', JNum 7), (''username'', JStr ''jd'')])]) [''author''] =
       Inr (JObj [(''title'', JStr ''X''),
                  (''author'', JObj [(''id'', JNum 7), (''username'', JStr ''jd'')])])
   \<and> ensureRelationshipIds
        (JObj [(''title'', JStr ''X''), (''author'', JObj [(''username'', JStr ''jd'')])])
        [''author''] =
       Inr (JObj [(''title'', JStr ''X''),
                  (''author'', JObj [(''username'', JStr ''jd''), (''id'', JStr ''jd'')])])
   \<and> ensureRelationshipIds
        (JObj [(''title'', JStr ''X''),
               (''author'', JObj [(''username'', JStr ''jd''), (''id'', JStr ''jd'')])])
        [''author''] =
       Inr (JObj [(''title'', JStr ''X''),
                  (''author'', JObj [(''username'', JStr ''jd''), (''id'', JStr ''jd'')])])"
proof -
  let ?with_id = "[(''title'', JStr ''X''),
                   (''author'', JObj [(''id'', JNum 7), (''username'', JStr ''jd'')])]"
  let ?bare = "JObj [(''title'', JStr ''X''), (''author'', JObj [(''username'', JStr ''jd'')])]"
  let ?filled = "JObj [(''title'', JStr ''X''),
                       (''author'', JObj [(''username'', JStr ''jd''), (''id'', JStr ''jd'')])]"
  have h: "\<forall>relName \<in> set [''author''].
       \<forall>item \<in> set (relationship_items (lookup ?with_id relName)).
         isObject item \<longrightarrow> truthy (lookup (spread item) ''id'')"
    by (simp add: lookup_def relationship_items_def)
  have first: "ensureRelationshipIds ?bare [''author''] = Inr ?filled"
    by code_simp
  note t = coercion_and_backfill_idempotent [where rels = "[''author'']" and kvs = ?with_id
      and r = ?bare and rels' = "[''author'']" and r' = ?filled]
  from t h have "ensureRelationshipIds (JObj ?with_id) [''author''] = Inr (JObj ?with_id)"
    by blast
  moreover from t first have "ensureRelationshipIds ?filled [''author''] = Inr ?filled"
    by blast
  ultimately show ?thesis using first by (simp add: lookup_def relationship_items_def)
qed

section \<open>Collection or single resource\<close>

lemma collection_unfold:
  "lookup document (pl type) = JArr items \<Longrightarrow>
   normalizeResourceRecursive ser pl m url document type rels has =
     thenE (mapE (\<lambda>resource.
              normalizeResourceRecursive ser pl m url [(type, resource)] type rels has) items)
       (aggregate has)"
  by (subst normalizeResourceRecursive.simps) (simp add: isCollectionResponse_def)

lemma wrapped_not_collection:
  "pl type \<noteq> type \<Longrightarrow> \<not> isCollectionResponse pl [type] [(type, resource)]"
  by (simp add: isCollectionResponse_def lookup_def)

lemma wrapped_single:
  "pl type \<noteq> type \<Longrightarrow>
   normalizeResourceRecursive ser pl m url [(type, resource)] type rels has =
     singleResource ser m url [(type, resource)] type rels has"
  by (subst normalizeResourceRecursive.simps) (simp add: wrapped_not_collection)

text \<open>
  C1. The claim: \<^verbatim>\<open>isCollectionResponse\<close> is true only when the pluralized key holds an
  array, and a payload whose pluralized key holds something else goes to the
  single-resource branch. The code tests the value for truthiness only: on
  \<^verbatim>\<open>{ tags: "ember" }\<close> it answers true, and \<^verbatim>\<open>normalizeResourceRecursive\<close> enters the
  collection branch, where \<^verbatim>\<open>document[pluralType].map\<close> is not a function. On
  \<^verbatim>\<open>{ tag: { name: "x" }, tags: "ember" }\<close> the same happens, although the single-resource
  branch would return a fragment for the resource under \<^verbatim>\<open>tag\<close>.
\<close>

theorem isCollectionResponse_non_array:
  "isCollectionResponse pluralize_sample [''tag''] [(''tags'', JStr ''ember'')]
   \<and> normalizeResourceRecursive sample_serialize pluralize_sample handler_map ''/api''
        [(''tags'', JStr ''ember'')] ''tag'' [] False = Inl TypeError
   \<and> normalizeResource sample_serialize pluralize_sample [(''tags'', JStr ''ember'')]
        app_schema ''/api'' handler_map = Inl TypeError
   \<and> isCollectionResponse pluralize_sample [''tag'']
        [(''tag'', JObj [(''name'', JStr ''x'')]), (''tags'', JStr ''ember'')]
   \<and> normalizeResource sample_serialize pluralize_sample
        [(''tag'', JObj [(''name'', JStr ''x'')]), (''tags'', JStr ''ember'')]
        app_schema ''/api'' handler_map = Inl TypeError
   \<and> singleResource sample_serialize handler_map ''/api''
        [(''tag'', JObj [(''name'', JStr ''x'')]), (''tags'', JStr ''ember'')] ''tag'' [] False =
       Inr (JObj [(''data'', JObj [(''type'', JStr ''tag''), (''id'', JStr ''x''),
                                   (''attributes'', JObj [(''name'', JStr ''x'')])])])"
  by code_simp

text \<open>
  C2 (amended). For a collection with no elements the fragment is \<^verbatim>\<open>{ data: [] }\<close> when
  the type has no relationships and \<^verbatim>\<open>{ data: [], included: [] }\<close> when it has: the
  collection branch builds \<^verbatim>\<open>included\<close> itself with \<^verbatim>\<open>flatMap\<close> and never passes it
  through \<^verbatim>\<open>mapTypes\<close>, so the empty array stays an empty array.
\<close>

theorem empty_collection_included:
  "lookup document (pl type) = JArr [] \<Longrightarrow>
   normalizeResourceRecursive ser pl m url document type rels has =
     Inr (JObj ((''data'', JArr []) # (if has then [(''included'', JArr [])] else [])))"
  by (simp add: collection_unfold aggregate_def)

theorem empty_collection_included_witness:
  "lookup [(''articles'', JArr [])] (pluralize_sample ''article'') = JArr []
   \<and> normalizeResourceRecursive sample_serialize pluralize_sample handler_map ''/api''
        [(''articles'', JArr [])] ''article'' [''author''] True =
       Inr (JObj [(''data'', JArr []), (''included'', JArr [])])"
proof -
  have h: "lookup [(''articles'', JArr [])] (pluralize_sample ''article'') = JArr []"
    by (simp add: lookup_def pluralize_sample_def)
  from empty_collection_included [where pl = pluralize_sample and type = "''article''"
      and has = True, OF h, of sample_serialize handler_map "''/api''" "[''author'']"] h
  show ?thesis by simp
qed

text \<open>
  The claim as stated fails on \<^verbatim>\<open>{ articles: [] }\<close>, \<^verbatim>\<open>article\<close> having the relationship
  \<^verbatim>\<open>author\<close>: \<^verbatim>\<open>included\<close> is the empty array, not \<^verbatim>\<open>undefined\<close>.
\<close>

theorem empty_collection_undefined_counterexample:
  "normalizeResource sample_serialize pluralize_sample [(''articles'', JArr [])] app_schema
     ''/api'' handler_map = Inr (JObj [(''data'', JArr []), (''included'', JArr [])])
   \<and> normalizeResource sample_serialize pluralize_sample [(''articles'', JArr [])] app_schema
     ''/api'' handler_map \<noteq> Inr (JObj [(''data'', JArr []), (''included'', JUndef)])"
  by code_simp

text \<open>
  For a type whose plural differs from the type name, a wrapped singleton
  \<^verbatim>\<open>{ [type]: element }\<close> is never classified as a collection: the nested call is the
  single-resource base case, and a collection is normalized by one level of calls that do
  not recurse.
\<close>

lemma distinct_plural_depth_one:
  assumes "pl type \<noteq> type"
  shows "\<not> isCollectionResponse pl [type] [(type, resource)]
         \<and> normalizeResourceRecursive ser pl m url [(type, resource)] type rels has =
             singleResource ser m url [(type, resource)] type rels has
         \<and> (lookup document (pl type) = JArr items \<longrightarrow>
              normalizeResourceRecursive ser pl m url document type rels has =
                thenE (mapE (\<lambda>element.
                         singleResource ser m url [(type, element)] type rels has) items)
                  (aggregate has))"
  using assms by (simp add: wrapped_not_collection wrapped_single collection_unfold)

text \<open>
  C9. The claim: the recursive call on a wrapped singleton always takes the
  single-resource branch, for every type name. The code tests the wrapped singleton with
  the pluralized key, so for a type that is its own plural the singular key the wrapper
  was given is the collection key. With \<^verbatim>\<open>series\<close>, on \<^verbatim>\<open>{ series: [[]] }\<close> the
  wrapped element \<^verbatim>\<open>{ series: [] }\<close> is classified as a collection and the nested call
  takes the collection branch again, two levels deep, without reaching the base case; on
  \<^verbatim>\<open>{ series: [{ id: 1 }] }\<close> the wrapped element is classified as a collection and the
  call throws.
\<close>

theorem self_plural_reclassified:
  "pluralize_sample ''series'' = ''series''
   \<and> isCollectionResponse pluralize_sample [''series''] [(''series'', JArr [])]
   \<and> normalizeResourceRecursive sample_serialize pluralize_sample handler_map ''/api''
        [(''series'', JArr [JArr []])] ''series'' [] False =
       Inr (JObj [(''data'', JArr [JArr []])])
   \<and> isCollectionResponse pluralize_sample [''series''] [(''series'', JObj [(''id'', JNum 1)])]
   \<and> normalizeResourceRecursive sample_serialize pluralize_sample handler_map ''/api''
        [(''series'', JArr [JObj [(''id'', JNum 1)]])] ''series'' [] False = Inl TypeError"
  by code_simp

section \<open>Collections, element by element\<close>

text \<open>
  A payload whose pluralized key holds an array is normalized by normalizing each
  element, in payload order, as the singleton payload \<^verbatim>\<open>{ [type]: element }\<close> with the same
  function (for a type whose plural differs from its name that call is the single-resource
  base case). When the whole call returns a fragment, its \<^verbatim>\<open>data\<close> is the array of the
  elements' \<^verbatim>\<open>data\<close> in that order; when the type has relationships its \<^verbatim>\<open>included\<close> is
  the concatenation of the elements' included lists, repeated entries kept; when it has
  none the fragment has the single key \<^verbatim>\<open>data\<close>.
\<close>

lemma collection_elementwise:
  assumes arr: "lookup document (pl type) = JArr items"
  shows "normalizeResourceRecursive ser pl m url document type rels has =
           thenE (mapE (\<lambda>element.
                    normalizeResourceRecursive ser pl m url [(type, element)] type rels has) items)
             (aggregate has)
         \<and> (pl type \<noteq> type \<longrightarrow>
              (\<forall>element. normalizeResourceRecursive ser pl m url [(type, element)] type rels has =
                           singleResource ser m url [(type, element)] type rels has))
         \<and> (\<forall>out. normalizeResourceRecursive ser pl m url document type rels has = Inr out \<longrightarrow>
              (\<exists>frags.
                 list_all2 (\<lambda>element frag.
                    normalizeResourceRecursive ser pl m url [(type, element)] type rels has = Inr frag)
                   items frags
                 \<and> get out ''data'' = Inr (JArr (map (\<lambda>frag. peek frag ''data'') frags))
                 \<and> (if has
                     then get out ''included'' = Inr (JArr (concat (map included_list frags)))
                     else map fst (spread out) = [''data''])))"
proof -
  have unfold: "normalizeResourceRecursive ser pl m url document type rels has =
           thenE (mapE (\<lambda>element.
                    normalizeResourceRecursive ser pl m url [(type, element)] type rels has) items)
             (aggregate has)"
    using arr by (rule collection_unfold)
  have "\<exists>frags.
          list_all2 (\<lambda>element frag.
             normalizeResourceRecursive ser pl m url [(type, element)] type rels has = Inr frag)
            items frags
          \<and> get out ''data'' = Inr (JArr (map (\<lambda>frag. peek frag ''data'') frags))
          \<and> (if has
              then get out ''included'' = Inr (JArr (concat (map included_list frags)))
              else map fst (spread out) = [''data''])"
    if run: "normalizeResourceRecursive ser pl m url document type rels has = Inr out" for out
  proof -
    from run unfold obtain frags where
      frags: "mapE (\<lambda>element.
                normalizeResourceRecursive ser pl m url [(type, element)] type rels has) items
              = Inr frags"
      and agg: "aggregate has frags = Inr out"
      by (auto simp: thenE_Inr_iff)
    from frags have "list_all2 (\<lambda>element frag.
             normalizeResourceRecursive ser pl m url [(type, element)] type rels has = Inr frag)
            items frags"
      by (simp add: mapE_Inr_iff)
    with aggregate_Inr [OF agg] show ?thesis
      by (cases has) auto
  qed
  with unfold show ?thesis
    by (simp add: wrapped_single)
qed

lemma collection_elementwise_example:
  "lookup [(''articles'',
            JArr [JObj [(''slug'', JStr ''a''), (''author'', JObj [(''username'', JStr ''jd'')])],
                  JObj [(''slug'', JStr ''b''), (''author'', JObj [(''username'', JStr ''jd'')])]])]
     (pluralize_sample ''article'') =
     JArr [JObj [(''slug'', JStr ''a''), (''author'', JObj [(''username'', JStr ''jd'')])],
           JObj [(''slug'', JStr ''b''), (''author'', JObj [(''username'', JStr ''jd'')])]]
   \<and> pluralize_sample ''article'' \<noteq> ''article''
   \<and> thenE (normalizeResourceRecursive sample_serialize pluralize_sample handler_map ''/api''
        [(''articles'',
          JArr [JObj [(''slug'', JStr ''a''), (''author'', JObj [(''username'', JStr ''jd'')])],
                JObj [(''slug'', JStr ''b''), (''author'', JObj [(''username'', JStr ''jd'')])]])]
        ''article'' [''author''] True) (\<lambda>out. get out ''included'') =
       Inr (JArr [JObj [(''type'', JStr ''user''), (''id'', JStr ''jd''),
                        (''attributes'', JObj [(''username'', JStr ''jd'')])],
                  JObj [(''type'', JStr ''user''), (''id'', JStr ''jd''),
                        (''attributes'', JObj [(''username'', JStr ''jd'')])]])"
proof -
  let ?a = "JObj [(''slug'', JStr ''a''), (''author'', JObj [(''username'', JStr ''jd'')])]"
  let ?b = "JObj [(''slug'', JStr ''b''), (''author'', JObj [(''username'', JStr ''jd'')])]"
  let ?u = "JObj [(''type'', JStr ''user''), (''id'', JStr ''jd''),
                  (''attributes'', JObj [(''username'', JStr ''jd'')])]"
  have h: "lookup [(''articles'', JArr [?a, ?b])] (pluralize_sample ''article'') = JArr [?a, ?b]"
    by (simp add: lookup_def pluralize_sample_def)
  have ne: "pluralize_sample ''article'' \<noteq> ''article''"
    by (simp add: pluralize_sample_def)
  note t = collection_elementwise [where pl = pluralize_sample and type = "''article''"
      and ser = sample_serialize and m = handler_map and url = "''/api''"
      and rels = "[''author'']" and has = True, OF h]
  from t have unfolded: "normalizeResourceRecursive sample_serialize pluralize_sample handler_map
        ''/api'' [(''articles'', JArr [?a, ?b])] ''article'' [''author''] True =
      thenE (mapE (\<lambda>element.
               normalizeResourceRecursive sample_serialize pluralize_sample handler_map ''/api''
                 [(''article'', element)] ''article'' [''author''] True) [?a, ?b])
        (aggregate True)"
    by (rule conjunct1)
  from t ne have base: "\<forall>element.
      normalizeResourceRecursive sample_serialize pluralize_sample handler_map ''/api''
        [(''article'', element)] ''article'' [''author''] True =
      singleResource sample_serialize handler_map ''/api''
        [(''article'', element)] ''article'' [''author''] True"
    by blast
  have run: "thenE (thenE (mapE (\<lambda>element.
               singleResource sample_serialize handler_map ''/api''
                 [(''article'', element)] ''article'' [''author''] True) [?a, ?b])
        (aggregate True)) (\<lambda>out. get out ''included'') = Inr (JArr [?u, ?u])"
    by code_simp
  show ?thesis
    unfolding unfolded using h ne run by (simp add: base)
qed

text \<open>
  C7. The claim: the \<^verbatim>\<open>data\<close> of a collection is the array of its elements, each
  normalized through the single-resource path. For a type that is its own plural the code
  does not do that: on \<^verbatim>\<open>{ series: [[]] }\<close> the element \<^verbatim>\<open>[]\<close> is normalized as an
  empty collection, so the fragment's \<^verbatim>\<open>data\<close> is \<^verbatim>\<open>[[]]\<close>, where the single-resource
  path gives the element a resource object.
\<close>

theorem self_plural_collection_data:
  "lookup [(''series'', JArr [JArr []])] (pluralize_sample ''series'') = JArr [JArr []]
   \<and> thenE (normalizeResourceRecursive sample_serialize pluralize_sample handler_map ''/api''
             [(''series'', JArr [JArr []])] ''series'' [] False) (\<lambda>out. get out ''data'') =
       Inr (JArr [JArr []])
   \<and> thenE (singleResource sample_serialize handler_map ''/api''
             [(''series'', JArr [])] ''series'' [] False) (\<lambda>frag. get frag ''data'') =
       Inr (JObj [(''type'', JStr ''series''), (''id'', JUndef), (''attributes'', JObj [])])"
  by code_simp

section \<open>Schema lookups fail open\<close>










section \<open>Type rewriting of a single resource\<close>

lemma addJsonApiLinks_object:
  assumes "addJsonApiLinks (JObj es) url rid = Inr rels1"
  shows "\<exists>es1. rels1 = JObj es1
           \<and> list_all2 (\<lambda>e e1. fst e1 = fst e
                 \<and> (\<exists>links. put (snd e) ''links'' links = Inr (snd e1))) es es1"
proof -
  from assms obtain es1 where
    m: "mapE (\<lambda>(relName, relationship).
            thenE (links_of url rid relName) (\<lambda>links.
            thenE (put relationship ''links'' links)
              (\<lambda>r. Inr (relName, r)))) es = Inr es1"
    and r: "rels1 = JObj es1"
    by (auto simp: addJsonApiLinks_def thenE_Inr_iff)
  from m have "list_all2 (\<lambda>e e1. (case e of (relName, relationship) \<Rightarrow>
            thenE (links_of url rid relName) (\<lambda>links.
            thenE (put relationship ''links'' links)
              (\<lambda>r. Inr (relName, r)))) = Inr e1) es es1"
    by (simp add: mapE_Inr_iff)
  then have "list_all2 (\<lambda>e e1. fst e1 = fst e
                 \<and> (\<exists>links. put (snd e) ''links'' links = Inr (snd e1))) es es1"
    by (rule list_all2_mono) (auto simp: thenE_Inr_iff split: prod.splits)
  with r show ?thesis by blast
qed

lemma mapTypes_object:
  assumes "mapTypes (JObj es) m = Inr ret"
  shows "\<exists>es2. ret = JObj es2
           \<and> list_all2 (\<lambda>e e2. fst e2 = fst e
                 \<and> mapRelationship m (fst e) (snd e) = Inr (snd e2)) es es2"
proof -
  from assms obtain es2 where
    mp: "mapE (\<lambda>(relName, relationship).
            thenE (mapRelationship m relName relationship) (\<lambda>r. Inr (relName, r))) es = Inr es2"
    and r: "ret = JObj es2"
    by (auto simp: mapTypes_def thenE_Inr_iff)
  from mp have "list_all2 (\<lambda>e e2. (case e of (relName, relationship) \<Rightarrow>
            thenE (mapRelationship m relName relationship) (\<lambda>r. Inr (relName, r))) = Inr e2)
          es es2"
    by (simp add: mapE_Inr_iff)
  then have "list_all2 (\<lambda>e e2. fst e2 = fst e
                 \<and> mapRelationship m (fst e) (snd e) = Inr (snd e2)) es es2"
    by (rule list_all2_mono) (auto simp: thenE_Inr_iff split: prod.splits)
  with r show ?thesis by blast
qed

lemma mapRelationship_unmapped:
  "m relName = None \<Longrightarrow> mapRelationship m relName r = Inr r2 \<Longrightarrow> r2 = r"
  by (simp add: mapRelationship_def)

lemma mapRelationship_forced:
  assumes run: "mapRelationship m relName r = Inr r2"
    and t: "m relName = Some t" "t \<noteq> []"
  shows "list_all2 (\<lambda>item item'. put item ''type'' (JStr t) = Inr item')
           (linked_items r) (linked_items r2)"
proof (cases "truthy (peek r ''data'')")
  case False
  have "get r ''data'' = Inr (peek r ''data'')"
    using run t by (cases "get r ''data''") (auto simp: mapRelationship_def dest: get_Inr_peek)
  with run t False have "r2 = r" by (simp add: mapRelationship_def)
  with False show ?thesis by (simp add: linked_items_def)
next
  case True
  have g: "get r ''data'' = Inr (peek r ''data'')"
    using run t by (cases "get r ''data''") (auto simp: mapRelationship_def dest: get_Inr_peek)
  from run t True g obtain d' where
    d': "(case peek r ''data'' of
            JArr dataItems \<Rightarrow>
              thenE (mapE (\<lambda>item. put item ''type'' (JStr t)) dataItems)
                (\<lambda>items'. Inr (JArr items'))
          | v \<Rightarrow> put (peek r ''data'') ''type'' (JStr t)) = Inr d'"
    and r2: "put r ''data'' d' = Inr r2"
    by (auto simp: mapRelationship_def thenE_Inr_iff)
  from r2 have p2: "peek r2 ''data'' = d'" by (rule peek_put_same)
  show ?thesis
  proof (cases "peek r ''data''")
    case (JArr dataItems)
    with d' obtain items' where
      "mapE (\<lambda>item. put item ''type'' (JStr t)) dataItems = Inr items'" and "d' = JArr items'"
      by (auto simp: thenE_Inr_iff)
    with JArr p2 show ?thesis
      by (simp add: linked_items_def relationship_items_def mapE_Inr_iff)
  next
    case (JObj kvs)
    with d' p2 show ?thesis
      by (auto simp: linked_items_def relationship_items_def)
  qed (use d' True in \<open>simp_all\<close>)
qed

lemma forced_type:
  "list_all2 (\<lambda>item item'. put item ''type'' (JStr t) = Inr item') xs ys \<Longrightarrow>
   item' \<in> set ys \<Longrightarrow> peek item' ''type'' = JStr t"
  by (auto simp: list_all2_conv_all_nth in_set_conv_nth dest: peek_put_same)

lemma mapTypes_included:
  assumes "mapTypes (JArr items) m = Inr inc'" and "items \<noteq> []"
  shows "\<exists>items'. inc' = JArr items'
           \<and> list_all2 (\<lambda>item item'. mapIncluded m item = Inr item') items items'"
  using assms by (auto simp: mapTypes_def thenE_Inr_iff mapE_Inr_iff)

lemma mapIncluded_Inr:
  assumes "mapIncluded m item = Inr item'"
  shows "peek item' ''type'' = mapped_or m (string_text (peek item ''type'')) (peek item ''type'')
         \<and> (\<forall>k. k \<noteq> ''type'' \<longrightarrow> peek item' k = lookup (spread item) k)"
proof -
  from assms obtain t k where t: "get item ''type'' = Inr t" and k: "String_js t = Inr k"
    and item': "item' = JObj (AList.update ''type'' (mapped_or m k t) (spread item))"
    by (auto simp: mapIncluded_def thenE_Inr_iff)
  from t have "t = peek item ''type''" by (rule get_Inr_peek)
  moreover from k have "k = string_text t" by (rule String_js_Inr)
  ultimately show ?thesis using item' by (simp add: peek_def)
qed


lemma singleResource_chain:
  assumes run: "singleResource ser m url document type rels True = Inr out"
    and frag: "serializeResource ser (lookup document type) type rels True = Inr frag"
  shows "\<exists>rid rels1 ret result1 inc'.
           addJsonApiLinks (peek (peek frag ''data'') ''relationships'') url rid = Inr rels1
           \<and> mapTypes rels1 m = Inr ret
           \<and> (if truthy (peek (peek frag ''data'') ''relationships'')
               then thenE (put (peek frag ''data'') ''relationships''
                             (if isObject rels1 then ret else rels1))
                      (\<lambda>d'. put frag ''data'' d')
               else Inr frag) = Inr result1
           \<and> mapTypes (peek result1 ''included'') m = Inr inc'
           \<and> put result1 ''included'' inc' = Inr out"
proof -
  from run frag have "thenE (get frag ''data'') (\<lambda>d.
            thenE (get d ''relationships'') (\<lambda>rels.
            thenE (get d ''id'') (\<lambda>rid.
            thenE (addJsonApiLinks rels url rid) (\<lambda>rels1.
            thenE (mapTypes rels1 m) (\<lambda>ret.
            thenE (if truthy rels
                   then thenE (put d ''relationships'' (if isObject rels1 then ret else rels1))
                          (\<lambda>d'. put frag ''data'' d')
                   else Inr frag) (\<lambda>result1.
            thenE (get result1 ''included'') (\<lambda>inc.
            thenE (mapTypes inc m) (\<lambda>inc'.
              put result1 ''included'' inc')))))))) = Inr out"
    by (simp add: singleResource_def)
  then obtain d where c1: "get frag ''data'' = Inr d"
    and k1: "thenE (get d ''relationships'') (\<lambda>rels.
            thenE (get d ''id'') (\<lambda>rid.
            thenE (addJsonApiLinks rels url rid) (\<lambda>rels1.
            thenE (mapTypes rels1 m) (\<lambda>ret.
            thenE (if truthy rels
                   then thenE (put d ''relationships'' (if isObject rels1 then ret else rels1))
                          (\<lambda>d'. put frag ''data'' d')
                   else Inr frag) (\<lambda>result1.
            thenE (get result1 ''included'') (\<lambda>inc.
            thenE (mapTypes inc m) (\<lambda>inc'.
              put result1 ''included'' inc'))))))) = Inr out"
    by (rule thenE_InrE)
  from k1 obtain rels0 where c2: "get d ''relationships'' = Inr rels0"
    and k2: "thenE (get d ''id'') (\<lambda>rid.
            thenE (addJsonApiLinks rels0 url rid) (\<lambda>rels1.
            thenE (mapTypes rels1 m) (\<lambda>ret.
            thenE (if truthy rels0
                   then thenE (put d ''relationships'' (if isObject rels1 then ret else rels1))
                          (\<lambda>d'. put frag ''data'' d')
                   else Inr frag) (\<lambda>result1.
            thenE (get result1 ''included'') (\<lambda>inc.
            thenE (mapTypes inc m) (\<lambda>inc'.
              put result1 ''included'' inc')))))) = Inr out"
    by (rule thenE_InrE)
  from k2 obtain rid where
    k3: "thenE (addJsonApiLinks rels0 url rid) (\<lambda>rels1.
            thenE (mapTypes rels1 m) (\<lambda>ret.
            thenE (if truthy rels0
                   then thenE (put d ''relationships'' (if isObject rels1 then ret else rels1))
                          (\<lambda>d'. put frag ''data'' d')
                   else Inr frag) (\<lambda>result1.
            thenE (get result1 ''included'') (\<lambda>inc.
            thenE (mapTypes inc m) (\<lambda>inc'.
              put result1 ''included'' inc'))))) = Inr out"
    by (rule thenE_InrE)
  from k3 obtain rels1 where c3: "addJsonApiLinks rels0 url rid = Inr rels1"
    and k4: "thenE (mapTypes rels1 m) (\<lambda>ret.
            thenE (if truthy rels0
                   then thenE (put d ''relationships'' (if isObject rels1 then ret else rels1))
                          (\<lambda>d'. put frag ''data'' d')
                   else Inr frag) (\<lambda>result1.
            thenE (get result1 ''included'') (\<lambda>inc.
            thenE (mapTypes inc m) (\<lambda>inc'.
              put result1 ''included'' inc')))) = Inr out"
    by (rule thenE_InrE)
  from k4 obtain ret where c4: "mapTypes rels1 m = Inr ret"
    and k5: "thenE (if truthy rels0
                   then thenE (put d ''relationships'' (if isObject rels1 then ret else rels1))
                          (\<lambda>d'. put frag ''data'' d')
                   else Inr frag) (\<lambda>result1.
            thenE (get result1 ''included'') (\<lambda>inc.
            thenE (mapTypes inc m) (\<lambda>inc'.
              put result1 ''included'' inc'))) = Inr out"
    by (rule thenE_InrE)
  from k5 obtain result1 where
    c5: "(if truthy rels0
          then thenE (put d ''relationships'' (if isObject rels1 then ret else rels1))
                 (\<lambda>d'. put frag ''data'' d')
          else Inr frag) = Inr result1"
    and k6: "thenE (get result1 ''included'') (\<lambda>inc.
            thenE (mapTypes inc m) (\<lambda>inc'.
              put result1 ''included'' inc')) = Inr out"
    by (rule thenE_InrE)
  from k6 obtain inc where c6: "get result1 ''included'' = Inr inc"
    and k7: "thenE (mapTypes inc m) (\<lambda>inc'. put result1 ''included'' inc') = Inr out"
    by (rule thenE_InrE)
  from k7 obtain inc' where c7: "mapTypes inc m = Inr inc'"
    and c8: "put result1 ''included'' inc' = Inr out"
    by (rule thenE_InrE)
  from c1 have d: "d = peek frag ''data''" by (rule get_Inr_peek)
  from c2 have r0: "rels0 = peek (peek frag ''data'') ''relationships''"
    unfolding d by (rule get_Inr_peek)
  from c6 have i: "inc = peek result1 ''included''" by (rule get_Inr_peek)
  from c3 c4 c5 c7 c8 show ?thesis unfolding d r0 i by blast
qed

lemma written_back_included:
  assumes "(if c then thenE (put d ''relationships'' x) (\<lambda>d'. put frag ''data'' d')
            else Inr frag) = Inr result1"
  shows "peek result1 ''included'' = peek frag ''included''"
proof (cases c)
  case False
  with assms show ?thesis by simp
next
  case True
  with assms obtain d' where "put frag ''data'' d' = Inr result1"
    by (auto simp: thenE_Inr_iff)
  then show ?thesis by (rule peek_put_other) simp
qed

lemma written_back_relationships:
  assumes "thenE (put d ''relationships'' x) (\<lambda>d'. put frag ''data'' d') = Inr result1"
    and "put result1 ''included'' inc' = Inr out"
  shows "peek (peek out ''data'') ''relationships'' = x"
proof -
  from assms(1) obtain d' where d': "put d ''relationships'' x = Inr d'"
    and r: "put frag ''data'' d' = Inr result1"
    by (auto simp: thenE_Inr_iff)
  from assms(2) have "peek out ''data'' = peek result1 ''data''"
    by (rule peek_put_other) simp
  also from r have "\<dots> = d'" by (rule peek_put_same)
  finally show ?thesis using d' by (simp add: peek_put_same)
qed

lemma links_keep_data:
  "put r ''links'' l = Inr r1 \<Longrightarrow> peek r1 ''data'' = peek r ''data''"
  by (erule peek_put_other) simp

lemma links_keep_items:
  "put r ''links'' l = Inr r1 \<Longrightarrow> linked_items r1 = linked_items r"
  by (simp add: linked_items_def links_keep_data)

text \<open>
  C3. Take a single resource whose normalization returns \<open>out\<close>, the serializer having
  returned \<open>frag\<close>. Relationship by relationship, names and order kept: when the
  relationship's name is mapped to a (non-empty) type name, every linked-resource
  reference under its \<^verbatim>\<open>data\<close>, one reference or an array of them, has that type in
  \<open>out\<close>, and none is lost; when the name is not in the map, its \<^verbatim>\<open>data\<close> is what the
  serializer gave. Included entry by included entry: when the entry's type is mapped, the
  entry has the mapped type in \<open>out\<close>; when it is not, it keeps its type; every other
  property of the entry is kept.
\<close>

theorem single_resource_types_rewritten:
  assumes single: "\<not> isCollectionResponse pl [type] document"
    and run: "normalizeResourceRecursive ser pl m url document type rels True = Inr out"
    and frag: "serializeResource ser (lookup document type) type rels True = Inr frag"
  shows "(\<forall>es. peek (peek frag ''data'') ''relationships'' = JObj es \<longrightarrow>
            (\<exists>es'. peek (peek out ''data'') ''relationships'' = JObj es'
               \<and> list_all2 (\<lambda>e e'. fst e' = fst e
                     \<and> (case m (fst e) of
                          None \<Rightarrow> peek (snd e') ''data'' = peek (snd e) ''data''
                        | Some t \<Rightarrow>
                            t \<noteq> [] \<longrightarrow>
                              length (linked_items (snd e')) = length (linked_items (snd e))
                              \<and> (\<forall>item \<in> set (linked_items (snd e')).
                                    peek item ''type'' = JStr t))) es es'))
         \<and> (\<forall>items. peek frag ''included'' = JArr items \<and> items \<noteq> [] \<longrightarrow>
              (\<exists>items'. peek out ''included'' = JArr items'
                 \<and> list_all2 (\<lambda>item item'.
                       (case m (string_text (peek item ''type'')) of
                          None \<Rightarrow> peek item' ''type'' = peek item ''type''
                        | Some t \<Rightarrow> t \<noteq> [] \<longrightarrow> peek item' ''type'' = JStr t)
                       \<and> (\<forall>k. k \<noteq> ''type'' \<longrightarrow> peek item' k = lookup (spread item) k))
                     items items'))"
proof -
  from single run have base: "singleResource ser m url document type rels True = Inr out"
    by (subst (asm) normalizeResourceRecursive.simps) simp
  from singleResource_chain [OF base frag] obtain rid rels1 ret result1 inc' where
    links: "addJsonApiLinks (peek (peek frag ''data'') ''relationships'') url rid = Inr rels1"
    and typed: "mapTypes rels1 m = Inr ret"
    and wb: "(if truthy (peek (peek frag ''data'') ''relationships'')
               then thenE (put (peek frag ''data'') ''relationships''
                             (if isObject rels1 then ret else rels1))
                      (\<lambda>d'. put frag ''data'' d')
               else Inr frag) = Inr result1"
    and inc: "mapTypes (peek result1 ''included'') m = Inr inc'"
    and out: "put result1 ''included'' inc' = Inr out"
    by blast
  have rel_part: "\<exists>es'. peek (peek out ''data'') ''relationships'' = JObj es'
               \<and> list_all2 (\<lambda>e e'. fst e' = fst e
                     \<and> (case m (fst e) of
                          None \<Rightarrow> peek (snd e') ''data'' = peek (snd e) ''data''
                        | Some t \<Rightarrow>
                            t \<noteq> [] \<longrightarrow>
                              length (linked_items (snd e')) = length (linked_items (snd e))
                              \<and> (\<forall>item \<in> set (linked_items (snd e')).
                                    peek item ''type'' = JStr t))) es es'"
    if es: "peek (peek frag ''data'') ''relationships'' = JObj es" for es
  proof -
    from links es have "addJsonApiLinks (JObj es) url rid = Inr rels1" by simp
    from addJsonApiLinks_object [OF this] obtain es1 where r1: "rels1 = JObj es1"
      and l1: "list_all2 (\<lambda>e e1. fst e1 = fst e
                 \<and> (\<exists>links. put (snd e) ''links'' links = Inr (snd e1))) es es1"
      by blast
    from typed r1 have "mapTypes (JObj es1) m = Inr ret" by simp
    from mapTypes_object [OF this] obtain es2 where r2: "ret = JObj es2"
      and l2: "list_all2 (\<lambda>e e2. fst e2 = fst e
                 \<and> mapRelationship m (fst e) (snd e) = Inr (snd e2)) es1 es2"
      by blast
    from wb es r1 r2 have
      "thenE (put (peek frag ''data'') ''relationships'' (JObj es2)) (\<lambda>d'. put frag ''data'' d')
         = Inr result1"
      by simp
    from written_back_relationships [OF this out]
    have shown: "peek (peek out ''data'') ''relationships'' = JObj es2" .
    have step: "fst e2 = fst e
        \<and> (case m (fst e) of
              None \<Rightarrow> peek (snd e2) ''data'' = peek (snd e) ''data''
            | Some t \<Rightarrow>
                t \<noteq> [] \<longrightarrow>
                  length (linked_items (snd e2)) = length (linked_items (snd e))
                  \<and> (\<forall>item \<in> set (linked_items (snd e2)). peek item ''type'' = JStr t))"
      if a: "fst e1 = fst e \<and> (\<exists>links. put (snd e) ''links'' links = Inr (snd e1))"
        and b: "fst e2 = fst e1 \<and> mapRelationship m (fst e1) (snd e1) = Inr (snd e2)"
      for e e1 e2
    proof (cases "m (fst e)")
      case None
      with a b have "snd e2 = snd e1" by (auto dest: mapRelationship_unmapped)
      with a b None show ?thesis by (auto dest: links_keep_data)
    next
      case (Some t)
      show ?thesis
      proof (cases "t = []")
        case True
        with Some a b show ?thesis by simp
      next
        case False
        from b Some a have "mapRelationship m (fst e1) (snd e1) = Inr (snd e2)"
          and "m (fst e1) = Some t" by auto
        from mapRelationship_forced [OF this False]
        have f: "list_all2 (\<lambda>item item'. put item ''type'' (JStr t) = Inr item')
                   (linked_items (snd e1)) (linked_items (snd e2))" .
        from a have same: "linked_items (snd e1) = linked_items (snd e)"
          by (auto dest: links_keep_items)
        from f have "length (linked_items (snd e2)) = length (linked_items (snd e1))"
          by (simp add: list_all2_lengthD)
        moreover from f have "\<forall>item \<in> set (linked_items (snd e2)). peek item ''type'' = JStr t"
          by (auto dest: forced_type)
        ultimately show ?thesis using Some a b same by simp
      qed
    qed
    have "list_all2 (\<lambda>e e2. \<exists>e1. (fst e1 = fst e
                 \<and> (\<exists>links. put (snd e) ''links'' links = Inr (snd e1)))
               \<and> (fst e2 = fst e1 \<and> mapRelationship m (fst e1) (snd e1) = Inr (snd e2)))
            es es2"
      using l1 l2 by (rule list_all2_compose)
    then have "list_all2 (\<lambda>e e'. fst e' = fst e
                     \<and> (case m (fst e) of
                          None \<Rightarrow> peek (snd e') ''data'' = peek (snd e) ''data''
                        | Some t \<Rightarrow>
                            t \<noteq> [] \<longrightarrow>
                              length (linked_items (snd e')) = length (linked_items (snd e))
                              \<and> (\<forall>item \<in> set (linked_items (snd e')).
                                    peek item ''type'' = JStr t))) es es2"
      by (rule list_all2_mono) (use step in blast)
    with shown show ?thesis by blast
  qed
  have inc_part: "\<exists>items'. peek out ''included'' = JArr items'
                 \<and> list_all2 (\<lambda>item item'.
                       (case m (string_text (peek item ''type'')) of
                          None \<Rightarrow> peek item' ''type'' = peek item ''type''
                        | Some t \<Rightarrow> t \<noteq> [] \<longrightarrow> peek item' ''type'' = JStr t)
                       \<and> (\<forall>k. k \<noteq> ''type'' \<longrightarrow> peek item' k = lookup (spread item) k))
                     items items'"
    if items: "peek frag ''included'' = JArr items" "items \<noteq> []" for items
  proof -
    have "peek result1 ''included'' = JArr items"
      using written_back_included [OF wb] items by simp
    with inc have "mapTypes (JArr items) m = Inr inc'" by simp
    from mapTypes_included [OF this items(2)] obtain items' where i': "inc' = JArr items'"
      and all: "list_all2 (\<lambda>item item'. mapIncluded m item = Inr item') items items'"
      by blast
    from out i' have shown: "peek out ''included'' = JArr items'"
      by (simp add: peek_put_same)
    from all have "list_all2 (\<lambda>item item'.
                       (case m (string_text (peek item ''type'')) of
                          None \<Rightarrow> peek item' ''type'' = peek item ''type''
                        | Some t \<Rightarrow> t \<noteq> [] \<longrightarrow> peek item' ''type'' = JStr t)
                       \<and> (\<forall>k. k \<noteq> ''type'' \<longrightarrow> peek item' k = lookup (spread item) k))
                     items items'"
      by (rule list_all2_mono)
         (auto dest!: mapIncluded_Inr simp: mapped_or_def split: option.splits)
    with shown show ?thesis by blast
  qed
  from rel_part inc_part show ?thesis by blast
qed

theorem single_resource_types_rewritten_witness:
  "\<not> isCollectionResponse pluralize_sample [''article'']
       [(''article'', JObj [(''title'', JStr ''X''), (''author'', JObj [(''username'', JStr ''jd'')])])]
   \<and> peek (peek (JObj
        [(''data'', JObj [(''type'', JStr ''article''), (''id'', JUndef),
                          (''attributes'', JObj [(''title'', JStr ''X'')]),
                          (''relationships'',
                           JObj [(''author'',
                                  JObj [(''data'', JObj [(''type'', JStr ''author''),
                                                         (''id'', JStr ''jd'')])])])]),
         (''included'', JArr [JObj [(''type'', JStr ''author''), (''id'', JStr ''jd''),
                                    (''attributes'', JObj [(''username'', JStr ''jd'')])]])])
        ''data'') ''relationships'' =
       JObj [(''author'', JObj [(''data'', JObj [(''type'', JStr ''author''),
                                                 (''id'', JStr ''jd'')])])]
   \<and> handler_map ''author'' = Some ''user''
   \<and> normalizeResourceRecursive sample_serialize pluralize_sample handler_map ''/api''
        [(''article'', JObj [(''title'', JStr ''X''), (''author'', JObj [(''username'', JStr ''jd'')])])]
        ''article'' [''author''] True =
       Inr (JObj
        [(''data'', JObj [(''type'', JStr ''article''), (''id'', JUndef),
                          (''attributes'', JObj [(''title'', JStr ''X'')]),
                          (''relationships'',
                           JObj [(''author'',
                                  JObj [(''data'', JObj [(''type'', JStr ''user''),
                                                         (''id'', JStr ''jd'')]),
                                        (''links'',
                                         JObj [(''related'', JStr ''/api/undefined/author''),
                                               (''self'',
                                                JStr ''/api/undefined/relationships/author'')])])])]),
         (''included'', JArr [JObj [(''type'', JStr ''user''), (''id'', JStr ''jd''),
                                    (''attributes'', JObj [(''username'', JStr ''jd'')])]])])"
proof -
  let ?doc = "[(''article'',
                JObj [(''title'', JStr ''X''), (''author'', JObj [(''username'', JStr ''jd'')])])]"
  let ?frag = "JObj
        [(''data'', JObj [(''type'', JStr ''article''), (''id'', JUndef),
                          (''attributes'', JObj [(''title'', JStr ''X'')]),
                          (''relationships'',
                           JObj [(''author'',
                                  JObj [(''data'', JObj [(''type'', JStr ''author''),
                                                         (''id'', JStr ''jd'')])])])]),
         (''included'', JArr [JObj [(''type'', JStr ''author''), (''id'', JStr ''jd''),
                                    (''attributes'', JObj [(''username'', JStr ''jd'')])]])]"
  let ?out = "JObj
        [(''data'', JObj [(''type'', JStr ''article''), (''id'', JUndef),
                          (''attributes'', JObj [(''title'', JStr ''X'')]),
                          (''relationships'',
                           JObj [(''author'',
                                  JObj [(''data'', JObj [(''type'', JStr ''user''),
                                                         (''id'', JStr ''jd'')]),
                                        (''links'',
                                         JObj [(''related'', JStr ''/api/undefined/author''),
                                               (''self'',
                                                JStr ''/api/undefined/relationships/author'')])])])]),
         (''included'', JArr [JObj [(''type'', JStr ''user''), (''id'', JStr ''jd''),
                                    (''attributes'', JObj [(''username'', JStr ''jd'')])]])]"
  have h1: "\<not> isCollectionResponse pluralize_sample [''article''] ?doc"
    by (simp add: isCollectionResponse_def lookup_def pluralize_sample_def)
  have h2: "normalizeResourceRecursive sample_serialize pluralize_sample handler_map ''/api''
      ?doc ''article'' [''author''] True = Inr ?out"
    by code_simp
  have h3: "serializeResource sample_serialize (lookup ?doc ''article'') ''article'' [''author'']
      True = Inr ?frag"
    by code_simp
  have fr: "peek (peek ?frag ''data'') ''relationships'' =
      JObj [(''author'', JObj [(''data'', JObj [(''type'', JStr ''author''),
                                                (''id'', JStr ''jd'')])])]"
    by (simp add: peek_def lookup_def)
  have hm: "handler_map ''author'' = Some ''user''" by (simp add: handler_map_def)
  note t = single_resource_types_rewritten [where pl = pluralize_sample
      and type = "''article''" and document = ?doc and out = ?out and frag = ?frag,
      OF h1 h2 h3]
  from t fr have "\<exists>es'. peek (peek ?out ''data'') ''relationships'' = JObj es'" by blast
  with h1 h2 fr hm show ?thesis by simp
qed

end
